theory Spec2Isabelle
  imports Complex_Main "HOL-Library.AList" "HOL-Library.Sublist"
begin

section \<open>Python values, strings and builtins\<close>

text \<open>
  The two source files are \<^verbatim>\<open>excel_converter.py\<close> (class
  \<^verbatim>\<open>SalesDataConverter\<close>) and \<^verbatim>\<open>streamlit_app_complete.py\<close> (the dashboard).
  Modelling decisions that hold for the whole development:
  \<^item> a binary64 float is the rational number it denotes: the rounding of float
    arithmetic, infinities and a NaN obtained by parsing text are not modelled; a NaN
    cell (an empty spreadsheet cell) is the constructor \<open>CNaN\<close>;
  \<^item> a Python \<^verbatim>\<open>int\<close> is unbounded; \<^verbatim>\<open>float(n)\<close> rounds \<open>n\<close> to the
    nearest binary64 value, ties to even, and raises \<^verbatim>\<open>OverflowError\<close> when that
    lies beyond the largest one; \<^verbatim>\<open>int(n)\<close> keeps \<open>n\<close> exactly;
  \<^item> strings are ASCII: \<^verbatim>\<open>lower\<close> maps \<open>A..Z\<close> only and \<^verbatim>\<open>strip\<close> removes
    the ASCII white space of \<^verbatim>\<open>str.isspace\<close>;
  \<^item> \<^verbatim>\<open>float(str)\<close>, \<^verbatim>\<open>int(str)\<close> and \<^verbatim>\<open>str(float)\<close> are builtins of the
    language, not code of the repository: they are parameters (record \<open>builtins\<close>),
    so every theorem holds whatever they compute;
  \<^item> column labels of a table are distinct, as \<^verbatim>\<open>pandas.read_excel\<close> makes them;
  \<^item> the index of a table is the default one, so the label \<^verbatim>\<open>idx\<close> of a row
    is its position.
\<close>

datatype error = TypeError | OverflowError | KeyError | ValueError string

datatype cell = CNaN | CNone | CStr string | CInt int | CFloat rat

record builtins =
  float_of_str :: "string \<Rightarrow> rat option"
  int_of_str :: "string \<Rightarrow> int option"
  repr_float :: "rat \<Rightarrow> string"

subsection \<open>Strings\<close>

text \<open>The ASCII characters of \<^verbatim>\<open>str.isspace\<close>: codes 9 to 13 and 28 to 32.\<close>

definition is_space :: "char \<Rightarrow> bool" where
  "is_space c = (c \<in> set [CHR 0x09, CHR 0x0A, CHR 0x0B, CHR 0x0C, CHR 0x0D,
                            CHR 0x1C, CHR 0x1D, CHR 0x1E, CHR 0x1F, CHR '' ''])"

definition strip :: "string \<Rightarrow> string" where
  "strip s = rev (dropWhile is_space (rev (dropWhile is_space s)))"

definition lower_char :: "char \<Rightarrow> char" where
  "lower_char c =
     (case map_of (zip ''ABCDEFGHIJKLMNOPQRSTUVWXYZ'' ''abcdefghijklmnopqrstuvwxyz'') c of
        None \<Rightarrow> c
      | Some l \<Rightarrow> l)"

definition lower :: "string \<Rightarrow> string" where
  "lower s = map lower_char s"

text \<open>\<^verbatim>\<open>s.replace(c, '')\<close> for a one-character \<open>c\<close>.\<close>

definition remove_char :: "char \<Rightarrow> string \<Rightarrow> string" where
  "remove_char c s = filter (\<lambda>x. x \<noteq> c) s"

text \<open>\<^verbatim>\<open>sub in s\<close> on strings.\<close>

fun py_in :: "string \<Rightarrow> string \<Rightarrow> bool" where
  "py_in sub [] = (sub = [])"
| "py_in sub (c # cs) = (take (length sub) (c # cs) = sub \<or> py_in sub cs)"

definition endswith :: "string \<Rightarrow> string \<Rightarrow> bool" where
  "endswith s suf = (length suf \<le> length s \<and> drop (length s - length suf) s = suf)"

text \<open>\<^verbatim>\<open>str(n)\<close> for an integer.\<close>

definition digit_char :: "nat \<Rightarrow> char" where
  "digit_char d = ''0123456789'' ! d"

fun str_nat :: "nat \<Rightarrow> string" where
  "str_nat n = (if n < 10 then [digit_char n] else str_nat (n div 10) @ [digit_char (n mod 10)])"

declare str_nat.simps [simp del]

definition str_int :: "int \<Rightarrow> string" where
  "str_int i = (if i < 0 then CHR ''-'' # str_nat (nat (- i)) else str_nat (nat i))"

subsection \<open>Builtins on cells\<close>

text \<open>\<^verbatim>\<open>pd.isna(value)\<close>: true of NaN and of None.\<close>

fun isna :: "cell \<Rightarrow> bool" where
  "isna CNaN = True"
| "isna CNone = True"
| "isna _ = False"

text \<open>\<^verbatim>\<open>str(value)\<close>.\<close>

fun py_str :: "builtins \<Rightarrow> cell \<Rightarrow> string" where
  "py_str py CNaN = ''nan''"
| "py_str py CNone = ''None''"
| "py_str py (CStr s) = s"
| "py_str py (CInt n) = str_int n"
| "py_str py (CFloat r) = repr_float py r"

text \<open>
  \<^verbatim>\<open>float(n)\<close> of an integer raises \<^verbatim>\<open>OverflowError\<close> from the midpoint between
  the largest binary64 value \<open>2^1024 - 2^971\<close> and \<open>2^1024\<close> on.
\<close>

definition float_overflows :: "int \<Rightarrow> bool" where
  "float_overflows n = (2 ^ 1024 - 2 ^ 970 \<le> \<bar>n\<bar>)"

text \<open>
  \<^verbatim>\<open>float(n)\<close> of an integer within range: exact up to \<open>2^53\<close>; a longer integer
  keeps its 53 leading bits, rounded to nearest with ties to even.
\<close>

function bit_length :: "int \<Rightarrow> nat" where
  "bit_length n = (if n \<le> 0 then 0 else Suc (bit_length (n div 2)))"
  by pat_completeness auto
termination
  by (relation "measure nat") auto

declare bit_length.simps [simp del]

text \<open>The rounding of a non-negative integer.\<close>

definition round_int :: "int \<Rightarrow> int" where
  "round_int m =
     (if m \<le> 9007199254740992 then m
      else let e = bit_length m - 53;
               q = m div 2 ^ e;
               r = m mod 2 ^ e;
               half = 2 ^ (e - 1)
           in (if r > half \<or> (r = half \<and> odd q) then q + 1 else q) * 2 ^ e)"

definition float_of_int :: "int \<Rightarrow> rat" where
  "float_of_int n = (if n < 0 then - of_int (round_int (- n)) else of_int (round_int n))"

text \<open>
  \<^verbatim>\<open>float(value)\<close> with its exceptions. Both converters test \<^verbatim>\<open>pd.isna\<close> before
  they convert, so the first two equations are never reached from them;
  \<^verbatim>\<open>float(None)\<close> raises \<^verbatim>\<open>TypeError\<close>, and the NaN equation stands for a value
  outside the model.
\<close>

fun py_float :: "builtins \<Rightarrow> cell \<Rightarrow> error + rat" where
  "py_float py CNone = Inl TypeError"
| "py_float py CNaN = Inl (ValueError ''nan'')"
| "py_float py (CStr s) =
     (case float_of_str py s of None \<Rightarrow> Inl (ValueError s) | Some x \<Rightarrow> Inr x)"
| "py_float py (CInt n) = (if float_overflows n then Inl OverflowError else Inr (float_of_int n))"
| "py_float py (CFloat r) = Inr r"

text \<open>\<^verbatim>\<open>int(value)\<close>: a float is truncated towards zero.\<close>

definition trunc :: "rat \<Rightarrow> int" where
  "trunc r = (if 0 \<le> r then \<lfloor>r\<rfloor> else \<lceil>r\<rceil>)"

fun py_int :: "builtins \<Rightarrow> cell \<Rightarrow> error + rat" where
  "py_int py CNone = Inl TypeError"
| "py_int py CNaN = Inl (ValueError ''nan'')"
| "py_int py (CStr s) =
     (case int_of_str py s of None \<Rightarrow> Inl (ValueError s) | Some n \<Rightarrow> Inr (of_int n))"
| "py_int py (CInt n) = Inr (of_int n)"
| "py_int py (CFloat r) = Inr (of_int (trunc r))"

section \<open>Tables and records\<close>

text \<open>
  A \<^verbatim>\<open>DataFrame\<close> is its column labels and its rows of cells;
  \<^verbatim>\<open>df.iterrows()\<close> yields each row as a labelled series together with its index.
\<close>

type_synonym row = "(string \<times> cell) list"

record dataframe =
  columns :: "string list"
  cells :: "cell list list"

definition iterrows :: "dataframe \<Rightarrow> (nat \<times> row) list" where
  "iterrows df = enumerate 0 (map (zip (columns df)) (cells df))"

text \<open>\<^verbatim>\<open>row.get(key, default)\<close>.\<close>

definition row_get :: "row \<Rightarrow> string \<Rightarrow> cell \<Rightarrow> cell" where
  "row_get r key dflt = (case map_of r key of None \<Rightarrow> dflt | Some c \<Rightarrow> c)"

text \<open>
  The dictionaries the converters build. \<open>appointments\<close> and \<open>totalAppts\<close> are always
  numbers (lemmas \<open>safe_convert_numeric_number\<close> and \<open>safe_get_Appts_number\<close> below);
  every rate may be \<^verbatim>\<open>None\<close>. \<open>categories\<close> is a dictionary in insertion order.
\<close>

record bucket =
  appointments :: rat
  closeRate :: "rat option"
  captureRate :: "rat option"

record rep =
  name :: string
  totalAppts :: rat
  overallClose :: "rat option"
  overallCapture :: "rat option"
  categories :: "(string \<times> bucket) list"

definition unit_categories :: "string list" where
  "unit_categories = [''0-4'', ''5-9'', ''10-17'', ''18-25'', ''26+'']"

definition appts_col :: "string \<Rightarrow> string" where
  "appts_col cat = ''('' @ cat @ '') Issued Appts''"

definition close_col :: "string \<Rightarrow> string" where
  "close_col cat = ''('' @ cat @ '') Overall Close %''"

definition capture_col :: "string \<Rightarrow> string" where
  "capture_col cat = ''('' @ cat @ '') Units Captured on Sold Jobs %''"

text \<open>Reading a field that is a number by construction.\<close>

definition number_of :: "rat option \<Rightarrow> rat" where
  "number_of v = (case v of None \<Rightarrow> 0 | Some x \<Rightarrow> x)"

section \<open>The converter: \<^verbatim>\<open>SalesDataConverter\<close>\<close>

text \<open>The value returned for "no value" and after a failed parse.\<close>

definition no_value :: "bool \<Rightarrow> rat \<Rightarrow> rat option" where
  "no_value is_percentage dflt = (if is_percentage \<and> dflt = 0 then None else Some dflt)"

text \<open>The rescaling of a parsed number.\<close>

definition rescale :: "bool \<Rightarrow> rat \<Rightarrow> rat" where
  "rescale is_percentage numeric_val =
     (if is_percentage \<and> numeric_val \<le> 1 then numeric_val * 100 else numeric_val)"

text \<open>
  \<^verbatim>\<open>safe_convert_numeric(value, is_percentage, default)\<close>. The handler catches
  \<^verbatim>\<open>ValueError\<close> and \<^verbatim>\<open>TypeError\<close> only, so the \<^verbatim>\<open>OverflowError\<close> of
  \<^verbatim>\<open>float\<close> leaves the function.
\<close>

definition convert_parsed :: "bool \<Rightarrow> rat \<Rightarrow> error + rat \<Rightarrow> error + rat option" where
  "convert_parsed is_percentage dflt res =
     (case res of
        Inr numeric_val \<Rightarrow> Inr (Some (rescale is_percentage numeric_val))
      | Inl TypeError \<Rightarrow> Inr (no_value is_percentage dflt)
      | Inl (ValueError m) \<Rightarrow> Inr (no_value is_percentage dflt)
      | Inl e \<Rightarrow> Inl e)"

fun safe_convert_numeric :: "builtins \<Rightarrow> cell \<Rightarrow> bool \<Rightarrow> rat \<Rightarrow> error + rat option" where
  "safe_convert_numeric py CNaN is_percentage dflt = Inr (no_value is_percentage dflt)"
| "safe_convert_numeric py CNone is_percentage dflt = Inr (no_value is_percentage dflt)"
| "safe_convert_numeric py (CStr s) is_percentage dflt =
     (if s = ''-'' \<or> s = '''' then Inr (no_value is_percentage dflt)
      else let v = strip (remove_char CHR '','' (remove_char CHR ''%'' s))
           in if v = '''' \<or> v = ''-'' then Inr (no_value is_percentage dflt)
              else convert_parsed is_percentage dflt (py_float py (CStr v)))"
| "safe_convert_numeric py value is_percentage dflt =
     convert_parsed is_percentage dflt (py_float py value)"

text \<open>Sequencing of calls that may raise: the first exception ends the block.\<close>

definition ebind :: "error + 'a \<Rightarrow> ('a \<Rightarrow> error + 'b) \<Rightarrow> error + 'b" where
  "ebind m f = (case m of Inl e \<Rightarrow> Inl e | Inr x \<Rightarrow> f x)"

text \<open>
  \<^verbatim>\<open>process_standard_format\<close>, lines 79-92: the loop over the unit categories,
  filling \<^verbatim>\<open>rep_data['categories']\<close>.
\<close>

fun process_categories ::
  "builtins \<Rightarrow> row \<Rightarrow> string list \<Rightarrow> (string \<times> bucket) list \<Rightarrow> error + (string \<times> bucket) list" where
  "process_categories py r [] cats = Inr cats"
| "process_categories py r (cat # rest) cats =
     ebind (safe_convert_numeric py (row_get r (appts_col cat) (CInt 0)) False 0) (\<lambda>appts.
     ebind (safe_convert_numeric py (row_get r (close_col cat) CNone) True 0) (\<lambda>close_rate.
     ebind (safe_convert_numeric py (row_get r (capture_col cat) CNone) True 0) (\<lambda>capture_rate.
       process_categories py r rest
         (AList.update cat
            \<lparr>appointments = number_of appts, closeRate = close_rate, captureRate = capture_rate\<rparr>
            cats))))"

text \<open>
  The body of the row loop, lines 64-98. A row ends in one of three ways: its record is
  appended, it is passed over for its name (\<^verbatim>\<open>continue\<close>), or an exception reaches
  the handler, which prints the index, the name and the exception, and continues.
\<close>

datatype row_outcome = Emitted rep | NameSkipped | RowError nat string error

definition rep_name_of :: "builtins \<Rightarrow> nat \<Rightarrow> row \<Rightarrow> string" where
  "rep_name_of py idx r = strip (py_str py (row_get r ''Sales Rep'' (CStr (''Rep_'' @ str_nat idx))))"

definition build_rep :: "builtins \<Rightarrow> string \<Rightarrow> row \<Rightarrow> error + rep" where
  "build_rep py rep_name r =
     ebind (safe_convert_numeric py (row_get r ''Issued Appts'' (CInt 0)) False 0) (\<lambda>total.
     ebind (safe_convert_numeric py (row_get r ''Overall Close %'' (CInt 0)) True 0) (\<lambda>oclose.
     ebind (safe_convert_numeric py (row_get r ''Units Captured on Sold Jobs %'' (CInt 0)) True 0) (\<lambda>ocapture.
     ebind (process_categories py r unit_categories []) (\<lambda>cats.
       Inr \<lparr>name = rep_name, totalAppts = number_of total, overallClose = oclose,
            overallCapture = ocapture, categories = cats\<rparr>))))"

definition process_row :: "builtins \<Rightarrow> nat \<Rightarrow> row \<Rightarrow> row_outcome" where
  "process_row py idx r =
     (let rep_name = rep_name_of py idx r
      in if rep_name = '''' \<or> lower rep_name = ''nan'' then NameSkipped
         else case build_rep py rep_name r of
                Inl e \<Rightarrow> RowError idx rep_name e
              | Inr rep_data \<Rightarrow> Emitted rep_data)"

text \<open>
  The row loop with its two effects: the list \<^verbatim>\<open>sales_data\<close> and the warnings
  printed by the handler (index, name, exception).
\<close>

type_synonym warning = "nat \<times> string \<times> error"

fun process_rows ::
  "builtins \<Rightarrow> (nat \<times> row) list \<Rightarrow> rep list \<times> warning list \<Rightarrow> rep list \<times> warning list" where
  "process_rows py [] st = st"
| "process_rows py ((idx, r) # rest) (sales_data, printed) =
     (case process_row py idx r of
        NameSkipped \<Rightarrow> process_rows py rest (sales_data, printed)
      | RowError i n e \<Rightarrow> process_rows py rest (sales_data, printed @ [(i, n, e)])
      | Emitted rep_data \<Rightarrow> process_rows py rest (sales_data @ [rep_data], printed))"

definition process_standard_format :: "builtins \<Rightarrow> dataframe \<Rightarrow> rep list \<times> warning list" where
  "process_standard_format py df = process_rows py (iterrows df) ([], [])"

text \<open>\<^verbatim>\<open>detect_column_format\<close>: True stands for "standard", False for "custom".\<close>

definition detect_column_format :: "dataframe \<Rightarrow> bool" where
  "detect_column_format df =
     list_ex (\<lambda>col. list_ex (\<lambda>cat. py_in (appts_col cat) col) unit_categories) (columns df)"

subsection \<open>The custom path\<close>

text \<open>
  \<^verbatim>\<open>process_custom_format\<close>, lines 111-120: one pass of the loop that fills the
  dictionary \<^verbatim>\<open>column_mapping\<close>. An assignment to a key that is present replaces
  its value.
\<close>

definition map_column :: "(string \<times> string) list \<Rightarrow> string \<Rightarrow> (string \<times> string) list" where
  "map_column column_mapping col =
     (let col_lower = lower col
      in if py_in ''sales rep'' col_lower \<or> py_in ''rep name'' col_lower \<or> py_in ''name'' col_lower
         then AList.update ''Sales Rep'' col column_mapping
         else if py_in ''total appt'' col_lower \<or> py_in ''issued appt'' col_lower
                 \<or> py_in ''appointments'' col_lower
         then AList.update ''Issued Appts'' col column_mapping
         else if py_in ''overall close'' col_lower \<or> py_in ''close rate'' col_lower
                 \<or> py_in ''close %'' col_lower
         then AList.update ''Overall Close %'' col column_mapping
         else if py_in ''capture'' col_lower \<and> (py_in ''overall'' col_lower \<or> py_in ''total'' col_lower)
         then AList.update ''Units Captured on Sold Jobs %'' col column_mapping
         else column_mapping)"

definition map_columns :: "string list \<Rightarrow> (string \<times> string) list" where
  "map_columns cols = fold (\<lambda>col column_mapping. map_column column_mapping col) cols []"

text \<open>\<^verbatim>\<open>column_mapping.get(key, key)\<close>.\<close>

definition mapped_label :: "(string \<times> string) list \<Rightarrow> string \<Rightarrow> string" where
  "mapped_label column_mapping key = (case map_of column_mapping key of None \<Rightarrow> key | Some c \<Rightarrow> c)"

text \<open>Lines 136-145: the search for the category columns of one row.\<close>

fun scan_columns :: "row \<Rightarrow> string \<Rightarrow> string list \<Rightarrow> row \<Rightarrow> row" where
  "scan_columns r cat [] rep_data = rep_data"
| "scan_columns r cat (col # cols) rep_data =
     (let col_str = lower col
      in scan_columns r cat cols
           (if py_in (remove_char CHR ''-'' cat) (remove_char CHR '' '' (remove_char CHR ''-'' col_str))
            then if py_in ''appt'' col_str
                 then AList.update (appts_col cat) (row_get r col (CInt 0)) rep_data
                 else if py_in ''close'' col_str
                 then AList.update (close_col cat) (row_get r col (CInt 0)) rep_data
                 else if py_in ''capture'' col_str
                 then AList.update (capture_col cat) (row_get r col (CInt 0)) rep_data
                 else rep_data
            else rep_data))"

fun scan_categories :: "row \<Rightarrow> string list \<Rightarrow> string list \<Rightarrow> row \<Rightarrow> row" where
  "scan_categories r cols [] rep_data = rep_data"
| "scan_categories r cols (cat # cats) rep_data =
     scan_categories r cols cats (scan_columns r cat cols rep_data)"

definition standardize_row :: "(string \<times> string) list \<Rightarrow> string list \<Rightarrow> nat \<Rightarrow> row \<Rightarrow> row" where
  "standardize_row column_mapping cols idx r =
     scan_categories r cols unit_categories
       [(''Sales Rep'', row_get r (mapped_label column_mapping ''Sales Rep'') (CStr (''Rep_'' @ str_nat idx))),
        (''Issued Appts'', row_get r (mapped_label column_mapping ''Issued Appts'') (CInt 0)),
        (''Overall Close %'', row_get r (mapped_label column_mapping ''Overall Close %'') (CInt 0)),
        (''Units Captured on Sold Jobs %'',
           row_get r (mapped_label column_mapping ''Units Captured on Sold Jobs %'') (CInt 0))]"

text \<open>
  \<^verbatim>\<open>pd.DataFrame(standardized_data)\<close> on a list of dictionaries: the labels are the
  keys (every dictionary built above has the keys of the first one), and a key that a
  dictionary lacks gives a NaN cell. The conversions of column types that pandas makes
  here are not modelled.
\<close>

definition dataframe_of_dicts :: "row list \<Rightarrow> dataframe" where
  "dataframe_of_dicts ds =
     (let cols = (case ds of [] \<Rightarrow> [] | d # _ \<Rightarrow> map fst d)
      in \<lparr>columns = cols,
          cells = map (\<lambda>d. map (\<lambda>k. case map_of d k of None \<Rightarrow> CNaN | Some c \<Rightarrow> c) cols) ds\<rparr>)"

definition process_custom_format :: "builtins \<Rightarrow> dataframe \<Rightarrow> rep list \<times> warning list" where
  "process_custom_format py df =
     (let column_mapping = map_columns (columns df);
          standardized_data =
            map (\<lambda>(idx, r). standardize_row column_mapping (columns df) idx r) (iterrows df)
      in process_standard_format py (dataframe_of_dicts standardized_data))"

subsection \<open>Validation\<close>

record stats =
  total_reps :: nat
  reps_with_appointments :: nat
  avg_appointments :: rat
  categories_with_data :: "(string \<times> nat) list"

text \<open>\<^verbatim>\<open>rep['categories'][cat]\<close>: a missing key raises \<^verbatim>\<open>KeyError\<close>.\<close>

definition category_of :: "rep \<Rightarrow> string \<Rightarrow> error + bucket" where
  "category_of rep cat = (case map_of (categories rep) cat of None \<Rightarrow> Inl KeyError | Some b \<Rightarrow> Inr b)"

text \<open>Lines 170-174: the list comprehension counting the reps with data in a category.\<close>

fun reps_with_cat_data :: "rep list \<Rightarrow> string \<Rightarrow> rep list \<Rightarrow> error + nat" where
  "reps_with_cat_data [] cat kept = Inr (length kept)"
| "reps_with_cat_data (rep # rest) cat kept =
     ebind (category_of rep cat) (\<lambda>b.
       if appointments b > 0 \<and> closeRate b \<noteq> None
       then reps_with_cat_data rest cat (kept @ [rep])
       else reps_with_cat_data rest cat kept)"

fun count_categories ::
  "rep list \<Rightarrow> string list \<Rightarrow> (string \<times> nat) list \<Rightarrow> error + (string \<times> nat) list" where
  "count_categories sales_data [] acc = Inr acc"
| "count_categories sales_data (cat # cats) acc =
     ebind (reps_with_cat_data sales_data cat []) (\<lambda>n.
       count_categories sales_data cats (AList.update cat n acc))"

definition validate_data :: "rep list \<Rightarrow> error + stats" where
  "validate_data sales_data =
     (if sales_data = [] then Inl (ValueError ''No valid sales data found'')
      else ebind (count_categories sales_data unit_categories []) (\<lambda>cwd.
             Inr \<lparr>total_reps = length sales_data,
                  reps_with_appointments = length (filter (\<lambda>rep. totalAppts rep > 0) sales_data),
                  avg_appointments = sum_list (map totalAppts sales_data) / of_nat (length sales_data),
                  categories_with_data = cwd\<rparr>))"

text \<open>
  \<^verbatim>\<open>convert_excel_file\<close> after the table is read: detection, conversion and
  validation; an exception of \<^verbatim>\<open>validate_data\<close> is raised again.
\<close>

definition convert_table :: "builtins \<Rightarrow> dataframe \<Rightarrow> error + rep list" where
  "convert_table py df =
     (let sales_data = fst (if detect_column_format df then process_standard_format py df
                            else process_custom_format py df)
      in ebind (validate_data sales_data) (\<lambda>st. Inr sales_data))"

section \<open>The dashboard: \<^verbatim>\<open>streamlit_app_complete.py\<close>\<close>

subsection \<open>\<^verbatim>\<open>convert_excel_to_sales_data\<close>\<close>

text \<open>
  The value \<^verbatim>\<open>safe_get\<close> returns for a missing cell and after a failed conversion:
  \<^verbatim>\<open>default if key.endswith('Appts') else None if 'Close' in key else default\<close>.
\<close>

definition fallback :: "string \<Rightarrow> int \<Rightarrow> rat option" where
  "fallback key dflt =
     (if endswith key ''Appts'' then Some (of_int dflt)
      else if py_in ''Close'' key then None else Some (of_int dflt))"

text \<open>
  The local function \<^verbatim>\<open>safe_get(key, default=0)\<close> of a row. Its bare
  \<^verbatim>\<open>except\<close> catches every exception of \<^verbatim>\<open>float\<close> and \<^verbatim>\<open>int\<close>.
\<close>

definition safe_get :: "builtins \<Rightarrow> row \<Rightarrow> string \<Rightarrow> int \<Rightarrow> rat option" where
  "safe_get py r key dflt =
     (let val = row_get r key (CInt dflt)
      in if isna val \<or> val = CStr ''-'' \<or> val = CStr '''' then fallback key dflt
         else case (if py_in ''Close'' key \<or> py_in ''Capture'' key
                    then py_float py val else py_int py val) of
                Inl e \<Rightarrow> fallback key dflt
              | Inr x \<Rightarrow> Some x)"

text \<open>
  Lines 142-143: \<^verbatim>\<open>v * 100 if v <= 1 else v\<close> with \<^verbatim>\<open>v = safe_get(key, 0)\<close>.
  The comparison of \<^verbatim>\<open>None\<close> with a number raises \<^verbatim>\<open>TypeError\<close>.
\<close>

definition times100_if_le1 :: "rat option \<Rightarrow> error + rat option" where
  "times100_if_le1 v =
     (case v of None \<Rightarrow> Inl TypeError
      | Some x \<Rightarrow> Inr (Some (if x \<le> 1 then x * 100 else x)))"

text \<open>Lines 159-162: \<^verbatim>\<open>if rate is not None and rate <= 1: rate *= 100\<close>.\<close>

definition times100_if_present :: "rat option \<Rightarrow> rat option" where
  "times100_if_present v =
     (case v of None \<Rightarrow> None
      | Some x \<Rightarrow> Some (if x \<le> 1 then x * 100 else x))"

text \<open>Lines 149-168: the loop over the unit categories.\<close>

fun convert_categories ::
  "builtins \<Rightarrow> row \<Rightarrow> string list \<Rightarrow> (string \<times> bucket) list \<Rightarrow> (string \<times> bucket) list" where
  "convert_categories py r [] cats = cats"
| "convert_categories py r (cat # rest) cats =
     (let appts = safe_get py r (appts_col cat) 0;
          close_rate = times100_if_present (safe_get py r (close_col cat) 0);
          capture_rate = times100_if_present (safe_get py r (capture_col cat) 0)
      in convert_categories py r rest
           (AList.update cat
              \<lparr>appointments = number_of appts, closeRate = close_rate, captureRate = capture_rate\<rparr>
              cats))"

text \<open>Lines 139-170: the record of one row. No handler surrounds it.\<close>

definition convert_row :: "builtins \<Rightarrow> row \<Rightarrow> error + rep" where
  "convert_row py r =
     ebind (times100_if_le1 (safe_get py r ''Overall Close %'' 0)) (\<lambda>oclose.
     ebind (times100_if_le1 (safe_get py r ''Units Captured on Sold Jobs %'' 0)) (\<lambda>ocapture.
       Inr \<lparr>name = py_str py (row_get r ''Sales Rep'' (CStr ''Unknown'')),
            totalAppts = number_of (safe_get py r ''Issued Appts'' 0),
            overallClose = oclose,
            overallCapture = ocapture,
            categories = convert_categories py r unit_categories []\<rparr>))"

fun convert_rows :: "builtins \<Rightarrow> (nat \<times> row) list \<Rightarrow> rep list \<Rightarrow> error + rep list" where
  "convert_rows py [] sales_data = Inr sales_data"
| "convert_rows py ((idx, r) # rest) sales_data =
     ebind (convert_row py r) (\<lambda>rep_data. convert_rows py rest (sales_data @ [rep_data]))"

definition convert_excel_to_sales_data :: "builtins \<Rightarrow> dataframe \<Rightarrow> error + rep list" where
  "convert_excel_to_sales_data py df = convert_rows py (iterrows df) []"

subsection \<open>\<^verbatim>\<open>calculate_performance_score\<close>\<close>

text \<open>\<^verbatim>\<open>x or 0\<close>: \<^verbatim>\<open>None\<close> and zero are falsy.\<close>

definition or_zero :: "rat option \<Rightarrow> rat" where
  "or_zero v = (case v of None \<Rightarrow> 0 | Some x \<Rightarrow> if x = 0 then 0 else x)"

text \<open>
  Lines 179-188: the list \<^verbatim>\<open>valid_categories\<close>; an entry is the triple of its
  \<^verbatim>\<open>appointments\<close>, \<^verbatim>\<open>closeRate\<close> and \<^verbatim>\<open>captureRate\<close>.
\<close>

fun valid_categories ::
  "rep \<Rightarrow> string list \<Rightarrow> (rat \<times> rat \<times> rat) list \<Rightarrow> error + (rat \<times> rat \<times> rat) list" where
  "valid_categories rep [] acc = Inr acc"
| "valid_categories rep (cat_key # rest) acc =
     ebind (category_of rep cat_key) (\<lambda>cat_data.
       valid_categories rep rest
         (if appointments cat_data \<ge> 2 \<and> closeRate cat_data \<noteq> None
               \<and> number_of (closeRate cat_data) > 0
          then acc @ [(appointments cat_data, number_of (closeRate cat_data),
                       or_zero (captureRate cat_data))]
          else acc))"

text \<open>Lines 191-199: the three running totals.\<close>

fun weighted_totals :: "(rat \<times> rat \<times> rat) list \<Rightarrow> rat \<times> rat \<times> rat \<Rightarrow> rat \<times> rat \<times> rat" where
  "weighted_totals [] totals = totals"
| "weighted_totals ((weight, close_rate, capture_rate) # rest)
       (total_weighted_close, total_weighted_capture, total_weight) =
     weighted_totals rest
       (total_weighted_close + close_rate * weight,
        total_weighted_capture + capture_rate * weight,
        total_weight + weight)"

record scored =
  s_name :: string
  score :: rat
  s_overallClose :: rat
  avgCategoryClose :: rat
  avgCategoryCapture :: rat
  s_totalAppts :: rat
  validCategories :: nat
  rawData :: rep

text \<open>
  \<^verbatim>\<open>rep['overallClose'] * 0.50\<close> raises \<^verbatim>\<open>TypeError\<close> when the field is
  \<^verbatim>\<open>None\<close>, which the converter class can produce and the dashboard's own
  conversion cannot.
\<close>

definition calculate_performance_score :: "rep \<Rightarrow> error + scored" where
  "calculate_performance_score rep =
     ebind (valid_categories rep unit_categories []) (\<lambda>valid.
       case weighted_totals valid (0, 0, 0) of
         (total_weighted_close, total_weighted_capture, total_weight) \<Rightarrow>
           (let avg_category_close =
                  (if total_weight > 0 then total_weighted_close / total_weight else 0);
                avg_category_capture =
                  (if total_weight > 0 then total_weighted_capture / total_weight else 0);
                normalized_capture = min avg_category_capture 150
            in case overallClose rep of
                 None \<Rightarrow> Inl TypeError
               | Some oclose \<Rightarrow>
                   Inr \<lparr>s_name = name rep,
                        score = oclose * 0.50 + avg_category_close * 0.15 + normalized_capture * 0.35,
                        s_overallClose = oclose,
                        avgCategoryClose = avg_category_close,
                        avgCategoryCapture = avg_category_capture,
                        s_totalAppts = totalAppts rep,
                        validCategories = length valid,
                        rawData = rep\<rparr>))"

subsection \<open>Category leaders\<close>

text \<open>Lines 435-442: the reps that qualify in a category, each with its category score.\<close>

fun category_reps :: "rep list \<Rightarrow> string \<Rightarrow> (rep \<times> rat) list \<Rightarrow> error + (rep \<times> rat) list" where
  "category_reps [] cat_key acc = Inr acc"
| "category_reps (rep # rest) cat_key acc =
     ebind (category_of rep cat_key) (\<lambda>cat_data.
       category_reps rest cat_key
         (if appointments cat_data \<ge> 3 \<and> closeRate cat_data \<noteq> None
               \<and> number_of (closeRate cat_data) > 0
          then acc @ [(rep, number_of (closeRate cat_data) * 0.6
                             + min (or_zero (captureRate cat_data)) 150 * 0.4)]
          else acc))"

text \<open>
  \<^verbatim>\<open>max(items, key=lambda x: x[1])\<close> on a non-empty list: the first item among
  those of largest key.
\<close>

fun max_from :: "'a \<times> rat \<Rightarrow> ('a \<times> rat) list \<Rightarrow> 'a \<times> rat" where
  "max_from best [] = best"
| "max_from best (x # xs) = max_from (if snd x > snd best then x else best) xs"

text \<open>Lines 433-445: the dictionary \<^verbatim>\<open>category_leaders\<close>.\<close>

fun leaders_loop ::
  "rep list \<Rightarrow> string list \<Rightarrow> (string \<times> rep) list \<Rightarrow> error + (string \<times> rep) list" where
  "leaders_loop sales_data [] leaders = Inr leaders"
| "leaders_loop sales_data (cat_key # rest) leaders =
     ebind (category_reps sales_data cat_key []) (\<lambda>crs.
       leaders_loop sales_data rest
         (case crs of [] \<Rightarrow> leaders
          | x # xs \<Rightarrow> AList.update cat_key (fst (max_from x xs)) leaders))"

definition category_leaders :: "rep list \<Rightarrow> error + (string \<times> rep) list" where
  "category_leaders sales_data = leaders_loop sales_data unit_categories []"

section \<open>A concrete instance of the builtins\<close>

text \<open>
  For evaluation on concrete tables: unsigned decimal numbers without exponent, a part of
  what \<^verbatim>\<open>float\<close> and \<^verbatim>\<open>int\<close> read, and \<^verbatim>\<open>str\<close> of a float of integral value.
\<close>

definition digit_of :: "char \<Rightarrow> nat option" where
  "digit_of c = map_of (zip ''0123456789'' [0 ..< 10]) c"

fun digits_value :: "string \<Rightarrow> nat \<Rightarrow> nat option" where
  "digits_value [] acc = Some acc"
| "digits_value (c # cs) acc =
     (case digit_of c of None \<Rightarrow> None | Some d \<Rightarrow> digits_value cs (10 * acc + d))"

definition plain_int :: "string \<Rightarrow> int option" where
  "plain_int s = (if s = [] then None else map_option int (digits_value s 0))"

definition plain_float :: "string \<Rightarrow> rat option" where
  "plain_float s =
     (let ip = takeWhile (\<lambda>c. c \<noteq> CHR ''.'') s;
          fp = drop (Suc (length ip)) s
      in if ip = [] \<and> fp = [] then None
         else case (digits_value ip 0, digits_value fp 0) of
                (Some a, Some b) \<Rightarrow> Some (of_nat a + of_nat b / 10 ^ length fp)
              | _ \<Rightarrow> None)"

definition plain_repr :: "rat \<Rightarrow> string" where
  "plain_repr r = str_int \<lfloor>r\<rfloor> @ ''.0''"

definition py_plain :: builtins where
  "py_plain = \<lparr>float_of_str = plain_float, int_of_str = plain_int, repr_float = plain_repr\<rparr>"

section \<open>Notions of the specification\<close>

text \<open>
  The definitions of this section are not code of the repository: they state, in the
  words of the specification, what the theorems below compare the code with.
\<close>

subsection \<open>Records with the five buckets\<close>

definition has_all_buckets :: "rep \<Rightarrow> bool" where
  "has_all_buckets rep = list_all (\<lambda>k. map_of (categories rep) k \<noteq> None) unit_categories"

text \<open>The buckets of a record, in the fixed order.\<close>

definition buckets_of :: "rep \<Rightarrow> bucket list" where
  "buckets_of rep = List.map_filter (map_of (categories rep)) unit_categories"

text \<open>A rate read as a number, an absent one as zero.\<close>

definition close_of :: "bucket \<Rightarrow> rat" where
  "close_of b = (case closeRate b of None \<Rightarrow> 0 | Some c \<Rightarrow> c)"

definition capture_of :: "bucket \<Rightarrow> rat" where
  "capture_of b = (case captureRate b of None \<Rightarrow> 0 | Some c \<Rightarrow> c)"

subsection \<open>Scoring\<close>

text \<open>A bucket is valid for scoring: two appointments or more and a present, positive close rate.\<close>

definition valid_bucket :: "bucket \<Rightarrow> bool" where
  "valid_bucket b = (appointments b \<ge> 2 \<and> (case closeRate b of None \<Rightarrow> False | Some c \<Rightarrow> c > 0))"

text \<open>The appointment-weighted average of a rate over a list of buckets, zero over no bucket.\<close>

definition weighted_avg :: "(bucket \<Rightarrow> rat) \<Rightarrow> bucket list \<Rightarrow> rat" where
  "weighted_avg f bs =
     (if bs = [] then 0
      else sum_list (map (\<lambda>b. f b * appointments b) bs) / sum_list (map appointments bs))"

text \<open>The synthetic rep of the score weight identity.\<close>

definition synthetic_bucket :: bucket where
  "synthetic_bucket = \<lparr>appointments = 10, closeRate = Some 40, captureRate = Some 100\<rparr>"

definition synthetic_rep :: rep where
  "synthetic_rep =
     \<lparr>name = ''Synthetic'', totalAppts = 50, overallClose = Some 40, overallCapture = Some 100,
      categories = map (\<lambda>k. (k, synthetic_bucket)) unit_categories\<rparr>"

text \<open>A rep of the dashboard's built-in sample data (lines 237-242).\<close>

definition craig :: rep where
  "craig =
     \<lparr>name = ''Craig Chisman'', totalAppts = 29, overallClose = Some 44.83, overallCapture = Some 98,
      categories =
        [(''0-4'', \<lparr>appointments = 14, closeRate = Some 50, captureRate = Some 149\<rparr>),
         (''5-9'', \<lparr>appointments = 7, closeRate = Some 42.86, captureRate = Some 120\<rparr>),
         (''10-17'', \<lparr>appointments = 5, closeRate = Some 40, captureRate = Some 71\<rparr>),
         (''18-25'', \<lparr>appointments = 2, closeRate = Some 50, captureRate = Some 60\<rparr>),
         (''26+'', \<lparr>appointments = 1, closeRate = Some 0, captureRate = None\<rparr>)]\<rparr>"

subsection \<open>Category leaders\<close>

text \<open>
  A rep qualifies for the leaderboard of a bucket: three appointments or more and a
  present, positive close rate. The bucket score is
  \<open>closeRate * 0.6 + min (captureRate or 0) 150 * 0.4\<close>.
\<close>

definition leader_eligible :: "string \<Rightarrow> rep \<Rightarrow> bool" where
  "leader_eligible cat rep =
     (case map_of (categories rep) cat of
        None \<Rightarrow> False
      | Some b \<Rightarrow> appointments b \<ge> 3 \<and> (case closeRate b of None \<Rightarrow> False | Some c \<Rightarrow> c > 0))"

definition bucket_score :: "string \<Rightarrow> rep \<Rightarrow> rat" where
  "bucket_score cat rep =
     (case map_of (categories rep) cat of
        None \<Rightarrow> 0
      | Some b \<Rightarrow> close_of b * 0.6 + min (capture_of b) 150 * 0.4)"

text \<open>Three reps whose scores in the bucket 0-4 are 70, 85 and 60.\<close>

definition no_data :: bucket where
  "no_data = \<lparr>appointments = 0, closeRate = None, captureRate = None\<rparr>"

definition rep_with :: "string \<Rightarrow> bucket \<Rightarrow> rep" where
  "rep_with nm b =
     \<lparr>name = nm, totalAppts = appointments b, overallClose = closeRate b,
      overallCapture = captureRate b,
      categories = [(''0-4'', b), (''5-9'', no_data), (''10-17'', no_data),
                    (''18-25'', no_data), (''26+'', no_data)]\<rparr>"

definition rep_70 :: rep where
  "rep_70 = rep_with ''Ann'' \<lparr>appointments = 3, closeRate = Some 50, captureRate = Some 100\<rparr>"

definition rep_85 :: rep where
  "rep_85 = rep_with ''Bob'' \<lparr>appointments = 4, closeRate = Some 75, captureRate = Some 100\<rparr>"

definition rep_60 :: rep where
  "rep_60 = rep_with ''Cy'' \<lparr>appointments = 5, closeRate = Some 60, captureRate = Some 60\<rparr>"

text \<open>The first rep of largest bucket score among those that qualify.\<close>

definition leader_of :: "rep list \<Rightarrow> string \<Rightarrow> rep option" where
  "leader_of sales_data cat =
     (case map (\<lambda>r. (r, bucket_score cat r)) (filter (leader_eligible cat) sales_data) of
        [] \<Rightarrow> None
      | x # xs \<Rightarrow> Some (fst (max_from x xs)))"

subsection \<open>Validation\<close>

text \<open>Reliable bucket data of a rep: appointments above zero and a present close rate.\<close>

definition reliable :: "string \<Rightarrow> rep \<Rightarrow> bool" where
  "reliable cat rep =
     (case map_of (categories rep) cat of
        None \<Rightarrow> False
      | Some b \<Rightarrow> appointments b > 0 \<and> closeRate b \<noteq> None)"

subsection \<open>Value coercion\<close>

text \<open>The number a cell parses to: in the converter after the cleaning of text, in the
  dashboard without it. \<open>None\<close> when the cell holds no value or does not parse.\<close>

definition cleaned :: "string \<Rightarrow> string" where
  "cleaned s = strip (remove_char CHR '','' (remove_char CHR ''%'' s))"

definition converter_reads :: "builtins \<Rightarrow> cell \<Rightarrow> rat option" where
  "converter_reads py c =
     (case c of
        CStr s \<Rightarrow> if s = ''-'' \<or> s = '''' \<or> cleaned s = '''' \<or> cleaned s = ''-'' then None
                  else float_of_str py (cleaned s)
      | CInt n \<Rightarrow> if float_overflows n then None else Some (float_of_int n)
      | CFloat x \<Rightarrow> Some x
      | _ \<Rightarrow> None)"

definition dashboard_reads :: "builtins \<Rightarrow> cell \<Rightarrow> rat option" where
  "dashboard_reads py c =
     (case c of
        CStr s \<Rightarrow> if s = ''-'' \<or> s = '''' then None else float_of_str py s
      | CInt n \<Rightarrow> if float_overflows n then None else Some (float_of_int n)
      | CFloat x \<Rightarrow> Some x
      | _ \<Rightarrow> None)"

text \<open>The percentage rescale law.\<close>

definition rescaled :: "rat \<Rightarrow> rat" where
  "rescaled m = (if m \<le> 1 then 100 * m else m)"

text \<open>A row of the sample file written by \<^verbatim>\<open>create_sample_excel\<close>.\<close>

definition sample_row :: row where
  "sample_row =
     [(''Sales Rep'', CStr ''John Doe''), (''Issued Appts'', CInt 25),
      (''Overall Close %'', CFloat 0.35), (''Units Captured on Sold Jobs %'', CFloat 1.05),
      (''(0-4) Issued Appts'', CInt 8), (''(0-4) Overall Close %'', CFloat 0.38),
      (''(0-4) Units Captured on Sold Jobs %'', CFloat 1.2),
      (''(5-9) Issued Appts'', CInt 8), (''(5-9) Overall Close %'', CFloat 0.38),
      (''(5-9) Units Captured on Sold Jobs %'', CFloat 1.2),
      (''(10-17) Issued Appts'', CInt 8), (''(10-17) Overall Close %'', CFloat 0.38),
      (''(10-17) Units Captured on Sold Jobs %'', CFloat 1.2),
      (''(18-25) Issued Appts'', CInt 8), (''(18-25) Overall Close %'', CFloat 0.38),
      (''(18-25) Units Captured on Sold Jobs %'', CFloat 1.2),
      (''(26+) Issued Appts'', CInt 8), (''(26+) Overall Close %'', CFloat 0.38),
      (''(26+) Units Captured on Sold Jobs %'', CFloat 1.2)]"

text \<open>The bucket the dashboard builds for a category of a row (lines 154-168).\<close>

definition dashboard_bucket :: "builtins \<Rightarrow> row \<Rightarrow> string \<Rightarrow> bucket" where
  "dashboard_bucket py r cat =
     \<lparr>appointments = number_of (safe_get py r (appts_col cat) 0),
      closeRate = times100_if_present (safe_get py r (close_col cat) 0),
      captureRate = times100_if_present (safe_get py r (capture_col cat) 0)\<rparr>"

text \<open>The record the dashboard builds from \<open>sample_row\<close>.\<close>

definition sample_bucket :: bucket where
  "sample_bucket = \<lparr>appointments = 8, closeRate = Some 38, captureRate = Some 1.2\<rparr>"

definition sample_rep :: rep where
  "sample_rep =
     \<lparr>name = ''John Doe'', totalAppts = 25, overallClose = Some 35, overallCapture = Some 1.05,
      categories = map (\<lambda>k. (k, sample_bucket)) unit_categories\<rparr>"

subsection \<open>Record normalisation\<close>

text \<open>
  A trimmed name that makes the normaliser pass over the row: empty, or equal to the
  missing-value sentinel \<^verbatim>\<open>nan\<close> whatever its case. \<open>emitted\<close> is the record a row
  contributes to the output and \<open>warned\<close> the warning it causes, if any.
\<close>

definition blank_name :: "string \<Rightarrow> bool" where
  "blank_name n = (n = '''' \<or> lower n = ''nan'')"

definition emitted :: "builtins \<Rightarrow> nat \<times> row \<Rightarrow> rep option" where
  "emitted py x = (case process_row py (fst x) (snd x) of Emitted rep \<Rightarrow> Some rep | _ \<Rightarrow> None)"

definition warned :: "builtins \<Rightarrow> nat \<times> row \<Rightarrow> warning option" where
  "warned py x = (case process_row py (fst x) (snd x) of RowError i n e \<Rightarrow> Some (i, n, e) | _ \<Rightarrow> None)"

text \<open>A table with names that are padded, missing, the sentinel and blank.\<close>

definition df_skip :: dataframe where
  "df_skip =
     \<lparr>columns = [''Sales Rep'', ''Issued Appts''],
      cells = [[CStr '' Ann '', CInt 5], [CNaN, CInt 3], [CStr ''NaN'', CInt 1],
               [CStr ''  '', CInt 2], [CStr ''Bob'', CInt 7]]\<rparr>"

text \<open>The table with the single row \<open>sample_row\<close>, and a table in a custom layout.\<close>

definition df_sample :: dataframe where
  "df_sample = \<lparr>columns = map fst sample_row, cells = [map snd sample_row]\<rparr>"

definition df_custom :: dataframe where
  "df_custom =
     \<lparr>columns = [''Rep Name'', ''Close Rate'', ''0-4 Appts''],
      cells = [[CStr ''Ann'', CFloat 0.5, CInt 4]]\<rparr>"

subsection \<open>Column mapping\<close>

text \<open>
  The canonical slots in the order the mapper tests them, and the keywords of each: a
  label matches a slot when its lower-cased text contains one of the slot's keywords
  (for the capture rate: "capture" together with "overall" or "total").
\<close>

definition canonical_slots :: "string list" where
  "canonical_slots =
     [''Sales Rep'', ''Issued Appts'', ''Overall Close %'', ''Units Captured on Sold Jobs %'']"

definition label_matches :: "string \<Rightarrow> string \<Rightarrow> bool" where
  "label_matches slot col =
     (let l = lower col
      in if slot = ''Sales Rep''
         then py_in ''sales rep'' l \<or> py_in ''rep name'' l \<or> py_in ''name'' l
         else if slot = ''Issued Appts''
         then py_in ''total appt'' l \<or> py_in ''issued appt'' l \<or> py_in ''appointments'' l
         else if slot = ''Overall Close %''
         then py_in ''overall close'' l \<or> py_in ''close rate'' l \<or> py_in ''close %'' l
         else if slot = ''Units Captured on Sold Jobs %''
         then py_in ''capture'' l \<and> (py_in ''overall'' l \<or> py_in ''total'' l)
         else False)"

text \<open>The slot a label is assigned to: the first slot, in the order tested, that it matches.\<close>

definition slot_of :: "string \<Rightarrow> string option" where
  "slot_of col = List.find (\<lambda>slot. label_matches slot col) canonical_slots"

subsection \<open>Tables on which the two conversions part\<close>

text \<open>A table whose second row has an empty cell for the overall close rate.\<close>

definition df_blank_close :: dataframe where
  "df_blank_close =
     \<lparr>columns = [''Sales Rep'', ''Issued Appts'', ''Overall Close %''],
      cells = [[CStr ''Ann'', CInt 10, CFloat 0.4], [CStr ''Bob'', CInt 12, CNaN]]\<rparr>"

text \<open>A table whose second row holds an integer beyond the range of \<^verbatim>\<open>float\<close>.\<close>

definition df_huge :: dataframe where
  "df_huge =
     \<lparr>columns = [''Sales Rep'', ''Issued Appts'', ''Overall Close %''],
      cells = [[CStr ''Ann'', CInt 10, CFloat 0.4], [CStr ''Bob'', CInt (2 ^ 1024), CFloat 0.5]]\<rparr>"


subsection \<open>Rows on which the two conversions agree\<close>

text \<open>
  A cell that the converter's \<^verbatim>\<open>float\<close> accepts without raising: every cell but an
  integer beyond the range of \<^verbatim>\<open>float\<close>.
\<close>

definition cell_ok :: "cell \<Rightarrow> bool" where
  "cell_ok c = (case c of CInt n \<Rightarrow> \<not> float_overflows n | _ \<Rightarrow> True)"












subsection \<open>Synthetic names\<close>

text \<open>
  A table is overflow-free when no cell of it is an integer beyond the range of
  \<^verbatim>\<open>float\<close>.
\<close>

definition overflow_free :: "dataframe \<Rightarrow> bool" where
  "overflow_free df = list_all (list_all cell_ok) (cells df)"

text \<open>The names \<^verbatim>\<open>Rep_0\<close>, \<^verbatim>\<open>Rep_1\<close>, ... of a table of \<open>n\<close> rows.\<close>

definition synthetic_names :: "nat \<Rightarrow> string list" where
  "synthetic_names n = map (\<lambda>idx. ''Rep_'' @ str_nat idx) [0 ..< n]"

text \<open>Tables without a name column: one overflow-free, one with a single huge integer.\<close>

definition df_nameless :: dataframe where
  "df_nameless =
     \<lparr>columns = [''Issued Appts'', ''(0-4) Issued Appts''],
      cells = [[CInt 10, CInt 4], [CInt 12, CNaN]]\<rparr>"

definition df_nameless_huge :: dataframe where
  "df_nameless_huge =
     \<lparr>columns = [''Issued Appts'', ''(0-4) Issued Appts''],
      cells = [[CInt (2 ^ 1024), CInt 4]]\<rparr>"

section \<open>The scoring engine\<close>

lemma or_zero_capture: "or_zero (captureRate b) = capture_of b"
  by (simp add: or_zero_def capture_of_def split: option.splits)

lemma number_of_close: "number_of (closeRate b) = close_of b"
  by (simp add: number_of_def close_of_def)

lemma valid_test:
  "(appointments b \<ge> 2 \<and> closeRate b \<noteq> None \<and> close_of b > 0) = valid_bucket b"
  by (auto simp: valid_bucket_def close_of_def split: option.splits)

lemma valid_categories_eq:
  "list_all (\<lambda>k. map_of (categories rep) k \<noteq> None) ks \<Longrightarrow>
   valid_categories rep ks acc =
     Inr (acc @ map (\<lambda>b. (appointments b, close_of b, capture_of b))
                  (filter valid_bucket (List.map_filter (map_of (categories rep)) ks)))"
proof (induction ks arbitrary: acc)
  case Nil
  show ?case by (simp add: map_filter_simps)
next
  case (Cons k ks)
  from Cons.prems obtain b where b: "map_of (categories rep) k = Some b" by auto
  from Cons.prems have rest: "list_all (\<lambda>k. map_of (categories rep) k \<noteq> None) ks" by simp
  have step: "valid_categories rep (k # ks) acc =
      valid_categories rep ks
        (if valid_bucket b then acc @ [(appointments b, close_of b, capture_of b)] else acc)"
    using b by (simp only: valid_categories.simps category_of_def ebind_def option.case sum.case
        or_zero_capture number_of_close valid_test)
  show ?case
    unfolding step using b by (simp add: Cons.IH [OF rest] map_filter_simps)
qed

lemma weighted_totals_eq:
  "weighted_totals (map (\<lambda>b. (appointments b, f b, g b)) bs) (a, c, w) =
     (a + sum_list (map (\<lambda>b. f b * appointments b) bs),
      c + sum_list (map (\<lambda>b. g b * appointments b) bs),
      w + sum_list (map appointments bs))"
  by (induction bs arbitrary: a c w) (simp_all add: algebra_simps)

lemma valid_weight_pos:
  "bs \<noteq> [] \<Longrightarrow> list_all valid_bucket bs \<Longrightarrow> 0 < sum_list (map appointments bs)"
proof (induction bs)
  case Nil
  then show ?case by simp
next
  case (Cons b bs)
  have "0 \<le> sum_list (map appointments bs)"
    using Cons.prems(2) by (intro sum_list_nonneg) (auto simp: list_all_iff valid_bucket_def)
  moreover have "2 \<le> appointments b" using Cons.prems(2) by (simp add: valid_bucket_def)
  ultimately show ?case by simp
qed

lemma score_general:
  assumes "has_all_buckets rep" and "overallClose rep = Some oc"
  shows "\<exists>s. calculate_performance_score rep = Inr s
     \<and> avgCategoryClose s = weighted_avg close_of (filter valid_bucket (buckets_of rep))
     \<and> avgCategoryCapture s = weighted_avg capture_of (filter valid_bucket (buckets_of rep))
     \<and> score s = oc * 0.50 + avgCategoryClose s * 0.15 + min (avgCategoryCapture s) 150 * 0.35"
proof -
  let ?vs = "filter valid_bucket (buckets_of rep)"
  have v: "valid_categories rep unit_categories [] =
      Inr (map (\<lambda>b. (appointments b, close_of b, capture_of b)) ?vs)"
    using assms(1) valid_categories_eq [of rep unit_categories "[]"]
    by (simp add: has_all_buckets_def buckets_of_def)
  have pos: "?vs \<noteq> [] \<Longrightarrow> 0 < sum_list (map appointments ?vs)"
    by (rule valid_weight_pos) (simp_all add: list_all_iff)
  show ?thesis
  proof (cases "?vs = []")
    case True
    then show ?thesis
      using assms(2) v
      by (simp add: calculate_performance_score_def ebind_def weighted_avg_def)
  next
    case False
    then show ?thesis
      using assms(2) v pos
      by (simp add: calculate_performance_score_def ebind_def weighted_avg_def
          weighted_totals_eq Let_def)
  qed
qed

lemma score_synthetic:
  "(case calculate_performance_score synthetic_rep of
      Inl e \<Rightarrow> None
    | Inr s \<Rightarrow> Some (avgCategoryClose s, avgCategoryCapture s, min (avgCategoryCapture s) 150, score s))
   = Some (40, 100, 100, 61)"
  by code_simp

text \<open>
  Claim C1. For every record that has the five buckets and a present overall close rate,
  \<^verbatim>\<open>calculate_performance_score\<close> returns, and its score is
  \<open>overallClose * 0.50 + avgCategoryClose * 0.15 + min avgCategoryCapture 150 * 0.35\<close>,
  where both averages are weighted by appointments over exactly the buckets with two
  appointments or more and a present close rate above zero, an absent capture rate counting
  as zero in the numerator, and both are zero when no bucket qualifies. The synthetic rep
  (overall close 40, five buckets with close 40, capture 100, 10 appointments) gets the
  averages 40 and 100, the normalised capture 100 and the score 61.
\<close>

theorem score_weighted_formula:
  "(has_all_buckets rep \<and> overallClose rep = Some oc \<longrightarrow>
      (\<exists>s. calculate_performance_score rep = Inr s
         \<and> avgCategoryClose s = weighted_avg close_of (filter valid_bucket (buckets_of rep))
         \<and> avgCategoryCapture s = weighted_avg capture_of (filter valid_bucket (buckets_of rep))
         \<and> score s = oc * 0.50 + avgCategoryClose s * 0.15 + min (avgCategoryCapture s) 150 * 0.35))
   \<and> (case calculate_performance_score synthetic_rep of
        Inl e \<Rightarrow> None
      | Inr s \<Rightarrow> Some (avgCategoryClose s, avgCategoryCapture s, min (avgCategoryCapture s) 150, score s))
     = Some (40, 100, 100, 61)"
  using score_general [of rep oc] score_synthetic by blast

theorem score_weighted_formula_witness:
  "has_all_buckets craig \<and> overallClose craig = Some 44.83
   \<and> (\<exists>s. calculate_performance_score craig = Inr s
         \<and> avgCategoryClose s = weighted_avg close_of (filter valid_bucket (buckets_of craig))
         \<and> avgCategoryCapture s = weighted_avg capture_of (filter valid_bucket (buckets_of craig))
         \<and> score s = 44.83 * 0.50 + avgCategoryClose s * 0.15 + min (avgCategoryCapture s) 150 * 0.35)
   \<and> weighted_avg close_of (filter valid_bucket (buckets_of craig)) = 65001 / 1400"
proof -
  have h: "has_all_buckets craig \<and> overallClose craig = Some 44.83"
    by code_simp
  have v: "weighted_avg close_of (filter valid_bucket (buckets_of craig)) = 65001 / 1400"
    by code_simp
  from h v score_weighted_formula [of craig "44.83"] show ?thesis by blast
qed

section \<open>Category leaders\<close>

lemma has_all_bucketsD:
  "has_all_buckets rep \<Longrightarrow> cat \<in> set unit_categories \<Longrightarrow> \<exists>b. map_of (categories rep) cat = Some b"
  by (auto simp: has_all_buckets_def list_all_iff)

lemma category_reps_eq:
  "\<forall>r\<in>set reps. map_of (categories r) cat \<noteq> None \<Longrightarrow>
   category_reps reps cat acc =
     Inr (acc @ map (\<lambda>r. (r, bucket_score cat r)) (filter (leader_eligible cat) reps))"
proof (induction reps arbitrary: acc)
  case Nil
  show ?case by simp
next
  case (Cons r reps)
  from Cons.prems obtain b where b: "map_of (categories r) cat = Some b" by auto
  have e: "leader_eligible cat r = (appointments b \<ge> 3 \<and> closeRate b \<noteq> None \<and> close_of b > 0)"
    using b by (auto simp: leader_eligible_def close_of_def split: option.splits)
  have s: "bucket_score cat r = close_of b * 0.6 + min (capture_of b) 150 * 0.4"
    using b by (simp add: bucket_score_def)
  have rest: "\<forall>r\<in>set reps. map_of (categories r) cat \<noteq> None" using Cons.prems by simp
  show ?case
    using b by (simp add: ebind_def category_of_def Cons.IH [OF rest] e s
        or_zero_capture number_of_close)
qed

lemma max_from_mem: "max_from best xs \<in> set (best # xs)"
  by (induction xs arbitrary: best) (auto split: if_splits)

lemma max_from_ge_best: "snd best \<le> snd (max_from best xs)"
proof (induction xs arbitrary: best)
  case Nil
  show ?case by simp
next
  case (Cons x xs)
  have "snd best \<le> snd (if snd best < snd x then x else best)" by simp
  also have "\<dots> \<le> snd (max_from (if snd best < snd x then x else best) xs)" by (rule Cons.IH)
  finally show ?case by simp
qed

lemma max_from_ge: "y \<in> set (best # xs) \<Longrightarrow> snd y \<le> snd (max_from best xs)"
proof (induction xs arbitrary: best)
  case Nil
  then show ?case by simp
next
  case (Cons x xs)
  let ?b = "if snd best < snd x then x else best"
  have up: "snd ?b \<le> snd (max_from ?b xs)" by (rule max_from_ge_best)
  from Cons.prems consider "y = best" | "y = x" | "y \<in> set xs" by auto
  then show ?case
  proof cases
    case 1
    then have "snd y \<le> snd ?b" by simp
    with up show ?thesis by simp
  next
    case 2
    then have "snd y \<le> snd ?b" by simp
    with up show ?thesis by simp
  next
    case 3
    then have "y \<in> set (?b # xs)" by simp
    from Cons.IH [OF this] show ?thesis by simp
  qed
qed

lemma leaders_loop_eq:
  "\<forall>r\<in>set sd. \<forall>k\<in>set ks. map_of (categories r) k \<noteq> None \<Longrightarrow>
   \<exists>res. leaders_loop sd ks acc = Inr res \<and>
     (\<forall>k. map_of res k = (if k \<in> set ks \<and> leader_of sd k \<noteq> None then leader_of sd k else map_of acc k))"
proof (induction ks arbitrary: acc)
  case Nil
  show ?case by simp
next
  case (Cons c ks)
  have c: "\<forall>r\<in>set sd. map_of (categories r) c \<noteq> None" using Cons.prems by simp
  have rest: "\<forall>r\<in>set sd. \<forall>k\<in>set ks. map_of (categories r) k \<noteq> None" using Cons.prems by simp
  let ?crs = "map (\<lambda>r. (r, bucket_score c r)) (filter (leader_eligible c) sd)"
  let ?acc = "case ?crs of [] \<Rightarrow> acc | x # xs \<Rightarrow> AList.update c (fst (max_from x xs)) acc"
  have step: "leaders_loop sd (c # ks) acc = leaders_loop sd ks ?acc"
    using category_reps_eq [OF c, of "[]"] by (simp add: ebind_def)
  from Cons.IH [OF rest, of ?acc] obtain res where
    res: "leaders_loop sd ks ?acc = Inr res"
    and m: "\<And>k. map_of res k =
        (if k \<in> set ks \<and> leader_of sd k \<noteq> None then leader_of sd k else map_of ?acc k)"
    by blast
  have acc: "map_of ?acc k = (if k = c \<and> leader_of sd c \<noteq> None then leader_of sd c else map_of acc k)" for k
    by (cases ?crs) (simp_all add: leader_of_def update_conv')
  show ?case
    unfolding step using res by (auto simp: m acc)
qed

lemma leader_of_None: "leader_of sd cat = None \<longleftrightarrow> \<not> list_ex (leader_eligible cat) sd"
proof -
  have "leader_of sd cat = None \<longleftrightarrow> filter (leader_eligible cat) sd = []"
    by (cases "filter (leader_eligible cat) sd") (simp_all add: leader_of_def)
  then show ?thesis by (simp add: list_ex_iff filter_empty_conv)
qed

lemma leader_of_Some:
  assumes "leader_of sd cat = Some r"
  shows "r \<in> set sd \<and> leader_eligible cat r
     \<and> (\<forall>r'\<in>set sd. leader_eligible cat r' \<longrightarrow> bucket_score cat r' \<le> bucket_score cat r)"
proof -
  let ?crs = "map (\<lambda>r. (r, bucket_score cat r)) (filter (leader_eligible cat) sd)"
  from assms obtain x xs where crs: "?crs = x # xs" and r: "r = fst (max_from x xs)"
    by (auto simp: leader_of_def split: list.splits)
  have "max_from x xs \<in> set ?crs" unfolding crs by (rule max_from_mem)
  then have mem: "max_from x xs = (r, bucket_score cat r)" "r \<in> set sd" "leader_eligible cat r"
    using r by auto
  have "bucket_score cat r' \<le> bucket_score cat r" if "r' \<in> set sd" "leader_eligible cat r'" for r'
  proof -
    from that have "(r', bucket_score cat r') \<in> set (x # xs)" unfolding crs [symmetric] by auto
    from max_from_ge [OF this] show ?thesis by (simp add: mem(1))
  qed
  with mem show ?thesis by blast
qed

lemma leaders_general:
  assumes "list_all has_all_buckets sd" and "cat \<in> set unit_categories"
  shows "\<exists>leaders. category_leaders sd = Inr leaders \<and>
     (case map_of leaders cat of
        None \<Rightarrow> \<not> list_ex (leader_eligible cat) sd
      | Some r \<Rightarrow> r \<in> set sd \<and> leader_eligible cat r
          \<and> (\<forall>r'\<in>set sd. leader_eligible cat r' \<longrightarrow> bucket_score cat r' \<le> bucket_score cat r))"
proof -
  have keys: "\<forall>r\<in>set sd. \<forall>k\<in>set unit_categories. map_of (categories r) k \<noteq> None"
    using assms(1) by (auto simp: list_all_iff dest: has_all_bucketsD)
  from leaders_loop_eq [OF keys, of "[]"] obtain res where
    res: "category_leaders sd = Inr res" and m: "map_of res cat = leader_of sd cat"
    using assms(2) by (auto simp: category_leaders_def)
  show ?thesis
  proof (cases "leader_of sd cat")
    case None
    then have "\<not> list_ex (leader_eligible cat) sd" by (simp add: leader_of_None)
    then show ?thesis using res m None by simp
  next
    case (Some r)
    then show ?thesis using res m leader_of_Some [OF Some] by simp
  qed
qed

lemma leaders_example:
  "map (bucket_score ''0-4'') [rep_70, rep_85, rep_60] = [70, 85, 60]
   \<and> list_all (leader_eligible ''0-4'') [rep_70, rep_85, rep_60]
   \<and> (case category_leaders [rep_70, rep_85, rep_60] of
        Inl e \<Rightarrow> None
      | Inr leaders \<Rightarrow> map_of leaders ''0-4'') = Some rep_85"
  by code_simp

text \<open>
  Claim C8. For sales data whose records have the five buckets and for every bucket, the
  dictionary \<^verbatim>\<open>category_leaders\<close> has no entry for the bucket exactly when no rep has
  three appointments or more and a present, positive close rate there; otherwise its
  entry is such a rep, and no such rep has a larger
  \<open>closeRate * 0.6 + min (captureRate or 0) 150 * 0.4\<close>. For three qualifying reps
  whose scores in the bucket 0-4 are 70, 85 and 60, the leader is the rep scoring 85.
\<close>

theorem category_leader_argmax:
  "(list_all has_all_buckets sales_data \<and> cat \<in> set unit_categories \<longrightarrow>
      (\<exists>leaders. category_leaders sales_data = Inr leaders \<and>
         (case map_of leaders cat of
            None \<Rightarrow> \<not> list_ex (leader_eligible cat) sales_data
          | Some r \<Rightarrow> r \<in> set sales_data \<and> leader_eligible cat r
              \<and> (\<forall>r'\<in>set sales_data. leader_eligible cat r' \<longrightarrow>
                    bucket_score cat r' \<le> bucket_score cat r))))
   \<and> map (bucket_score ''0-4'') [rep_70, rep_85, rep_60] = [70, 85, 60]
   \<and> list_all (leader_eligible ''0-4'') [rep_70, rep_85, rep_60]
   \<and> (case category_leaders [rep_70, rep_85, rep_60] of
        Inl e \<Rightarrow> None
      | Inr leaders \<Rightarrow> map_of leaders ''0-4'') = Some rep_85"
  using leaders_general [of sales_data cat] leaders_example by blast

theorem category_leader_argmax_witness:
  "list_all has_all_buckets [craig, synthetic_rep] \<and> ''5-9'' \<in> set unit_categories
   \<and> (\<exists>leaders. category_leaders [craig, synthetic_rep] = Inr leaders \<and>
         (case map_of leaders ''5-9'' of
            None \<Rightarrow> \<not> list_ex (leader_eligible ''5-9'') [craig, synthetic_rep]
          | Some r \<Rightarrow> r \<in> set [craig, synthetic_rep] \<and> leader_eligible ''5-9'' r
              \<and> (\<forall>r'\<in>set [craig, synthetic_rep]. leader_eligible ''5-9'' r' \<longrightarrow>
                    bucket_score ''5-9'' r' \<le> bucket_score ''5-9'' r)))"
proof -
  have h: "list_all has_all_buckets [craig, synthetic_rep] \<and> ''5-9'' \<in> set unit_categories"
    by code_simp
  from h category_leader_argmax [of "[craig, synthetic_rep]" "''5-9''"] show ?thesis by blast
qed

section \<open>Validation\<close>

lemma update_fresh: "k \<notin> fst ` set al \<Longrightarrow> AList.update k v al = al @ [(k, v)]"
  by (induction al) auto

lemma reps_with_cat_data_eq:
  "\<forall>r\<in>set reps. map_of (categories r) cat \<noteq> None \<Longrightarrow>
   reps_with_cat_data reps cat kept = Inr (length kept + length (filter (reliable cat) reps))"
proof (induction reps arbitrary: kept)
  case Nil
  show ?case by simp
next
  case (Cons r reps)
  from Cons.prems obtain b where b: "map_of (categories r) cat = Some b" by auto
  have rest: "\<forall>r\<in>set reps. map_of (categories r) cat \<noteq> None" using Cons.prems by simp
  show ?case
    using b by (simp add: ebind_def category_of_def reliable_def Cons.IH [OF rest])
qed

lemma count_categories_eq:
  "\<forall>r\<in>set sd. \<forall>k\<in>set ks. map_of (categories r) k \<noteq> None \<Longrightarrow> distinct ks \<Longrightarrow>
   set ks \<inter> fst ` set acc = {} \<Longrightarrow>
   count_categories sd ks acc = Inr (acc @ map (\<lambda>cat. (cat, length (filter (reliable cat) sd))) ks)"
proof (induction ks arbitrary: acc)
  case Nil
  show ?case by simp
next
  case (Cons c ks)
  have c: "\<forall>r\<in>set sd. map_of (categories r) c \<noteq> None" using Cons.prems(1) by simp
  have rest: "\<forall>r\<in>set sd. \<forall>k\<in>set ks. map_of (categories r) k \<noteq> None" using Cons.prems(1) by simp
  have fresh: "c \<notin> fst ` set acc" using Cons.prems(3) by auto
  let ?acc = "acc @ [(c, length (filter (reliable c) sd))]"
  have d: "distinct ks" and disj: "set ks \<inter> fst ` set ?acc = {}"
    using Cons.prems(2,3) by auto
  show ?case
    using reps_with_cat_data_eq [OF c, of "[]"] Cons.IH [OF rest d disj]
    by (simp add: ebind_def update_fresh [OF fresh])
qed

lemma validate_general:
  assumes "sd \<noteq> []" and "list_all has_all_buckets sd"
  shows "validate_data sd =
     Inr \<lparr>total_reps = length sd,
          reps_with_appointments = length (filter (\<lambda>rep. totalAppts rep > 0) sd),
          avg_appointments = sum_list (map totalAppts sd) / of_nat (length sd),
          categories_with_data = map (\<lambda>cat. (cat, length (filter (reliable cat) sd))) unit_categories\<rparr>"
proof -
  have keys: "\<forall>r\<in>set sd. \<forall>k\<in>set unit_categories. map_of (categories r) k \<noteq> None"
    using assms(2) by (auto simp: list_all_iff dest: has_all_bucketsD)
  have d: "distinct unit_categories" by (simp add: unit_categories_def)
  show ?thesis
    using assms(1) count_categories_eq [OF keys d, of "[]"]
    by (simp add: validate_data_def ebind_def)
qed

text \<open>
  Claim C6. \<^verbatim>\<open>validate_data\<close> raises on the empty list (the \<^verbatim>\<open>ValueError\<close> "No valid
  sales data found" is the empty-dataset error), and on every non-empty list of records
  with the five buckets it returns the statistics: the number of reps, the number of reps
  with \<open>totalAppts > 0\<close>, the arithmetic mean of \<open>totalAppts\<close>, and for each bucket
  the number of reps whose bucket has appointments above zero and a present close rate.
\<close>

theorem validate_fails_only_on_empty:
  "validate_data [] = Inl (ValueError ''No valid sales data found'')
   \<and> (sales_data \<noteq> [] \<and> list_all has_all_buckets sales_data \<longrightarrow>
        validate_data sales_data =
          Inr \<lparr>total_reps = length sales_data,
               reps_with_appointments = length (filter (\<lambda>rep. totalAppts rep > 0) sales_data),
               avg_appointments = sum_list (map totalAppts sales_data) / of_nat (length sales_data),
               categories_with_data =
                 map (\<lambda>cat. (cat, length (filter (reliable cat) sales_data))) unit_categories\<rparr>)"
  using validate_general [of sales_data] by (simp add: validate_data_def)

theorem validate_fails_only_on_empty_witness:
  "[craig, synthetic_rep] \<noteq> [] \<and> list_all has_all_buckets [craig, synthetic_rep]
   \<and> validate_data [craig, synthetic_rep] =
       Inr \<lparr>total_reps = 2, reps_with_appointments = 2, avg_appointments = 79 / 2,
            categories_with_data =
              [(''0-4'', 2), (''5-9'', 2), (''10-17'', 2), (''18-25'', 2), (''26+'', 2)]\<rparr>"
proof -
  have h: "[craig, synthetic_rep] \<noteq> [] \<and> list_all has_all_buckets [craig, synthetic_rep]"
    by code_simp
  have v: "\<lparr>total_reps = length [craig, synthetic_rep],
        reps_with_appointments = length (filter (\<lambda>rep. totalAppts rep > 0) [craig, synthetic_rep]),
        avg_appointments = sum_list (map totalAppts [craig, synthetic_rep])
                             / of_nat (length [craig, synthetic_rep]),
        categories_with_data =
          map (\<lambda>cat. (cat, length (filter (reliable cat) [craig, synthetic_rep]))) unit_categories\<rparr>
      = \<lparr>total_reps = 2, reps_with_appointments = 2, avg_appointments = 79 / 2,
         categories_with_data =
           [(''0-4'', 2), (''5-9'', 2), (''10-17'', 2), (''18-25'', 2), (''26+'', 2)]\<rparr>"
    by code_simp
  from h v validate_fails_only_on_empty [of "[craig, synthetic_rep]"] show ?thesis by simp
qed

section \<open>Value coercion and the percentage rescale\<close>

lemma key_facts:
  "list_all (\<lambda>cat. py_in ''Close'' (close_col cat) \<and> py_in ''Capture'' (capture_col cat)
      \<and> \<not> endswith (close_col cat) ''Appts'' \<and> \<not> endswith (capture_col cat) ''Appts''
      \<and> \<not> py_in ''Close'' (capture_col cat)
      \<and> endswith (appts_col cat) ''Appts''
      \<and> \<not> py_in ''Close'' (appts_col cat) \<and> \<not> py_in ''Capture'' (appts_col cat)) unit_categories"
  by code_simp

lemma overall_key_facts:
  "py_in ''Close'' ''Overall Close %'' \<and> \<not> endswith ''Overall Close %'' ''Appts''
   \<and> py_in ''Capture'' ''Units Captured on Sold Jobs %''
   \<and> \<not> py_in ''Close'' ''Units Captured on Sold Jobs %''
   \<and> \<not> endswith ''Units Captured on Sold Jobs %'' ''Appts''
   \<and> endswith ''Issued Appts'' ''Appts''
   \<and> \<not> py_in ''Close'' ''Issued Appts'' \<and> \<not> py_in ''Capture'' ''Issued Appts''"
  by code_simp

lemma converter_rescale:
  "converter_reads py c = Some m \<Longrightarrow>
   safe_convert_numeric py c True dflt = Inr (Some (rescaled m))"
  by (cases c)
    (auto simp: converter_reads_def cleaned_def convert_parsed_def rescale_def rescaled_def Let_def
       split: if_splits option.splits)

lemma safe_get_rate:
  "py_in ''Close'' key \<or> py_in ''Capture'' key \<Longrightarrow>
   dashboard_reads py (row_get r key (CInt 0)) = Some m \<Longrightarrow> safe_get py r key 0 = Some m"
  by (cases "row_get r key (CInt 0)")
    (auto simp: dashboard_reads_def safe_get_def Let_def split: if_splits option.splits)

lemma convert_categories_eq:
  "distinct ks \<Longrightarrow> set ks \<inter> fst ` set acc = {} \<Longrightarrow>
   convert_categories py r ks acc = acc @ map (\<lambda>cat. (cat, dashboard_bucket py r cat)) ks"
proof (induction ks arbitrary: acc)
  case Nil
  show ?case by simp
next
  case (Cons c ks)
  have fresh: "c \<notin> fst ` set acc" using Cons.prems(2) by auto
  let ?acc = "acc @ [(c, dashboard_bucket py r c)]"
  have d: "distinct ks" and disj: "set ks \<inter> fst ` set ?acc = {}"
    using Cons.prems by auto
  show ?case
    using Cons.IH [OF d disj]
    by (simp add: Let_def update_fresh [OF fresh] dashboard_bucket_def)
qed

lemma map_of_tabulate:
  "map_of (map (\<lambda>k. (k, f k)) ks) k = (if k \<in> set ks then Some (f k) else None)"
  by (induction ks) auto

lemma distinct_unit_categories: "distinct unit_categories"
  by (simp add: unit_categories_def)

lemma convert_row_fields:
  assumes "convert_row py r = Inr rep"
  shows "times100_if_le1 (safe_get py r ''Overall Close %'' 0) = Inr (overallClose rep)"
    and "times100_if_le1 (safe_get py r ''Units Captured on Sold Jobs %'' 0) = Inr (overallCapture rep)"
    and "categories rep = map (\<lambda>cat. (cat, dashboard_bucket py r cat)) unit_categories"
    and "name rep = py_str py (row_get r ''Sales Rep'' (CStr ''Unknown''))"
    and "totalAppts rep = number_of (safe_get py r ''Issued Appts'' 0)"
  using assms convert_categories_eq [OF distinct_unit_categories, of "[]" py r]
  by (auto simp: convert_row_def ebind_def split: sum.splits)

lemma dashboard_rescale_overall:
  assumes "py_in ''Close'' key \<or> py_in ''Capture'' key"
    and "dashboard_reads py (row_get r key (CInt 0)) = Some m"
  shows "times100_if_le1 (safe_get py r key 0) = Inr (Some (rescaled m))"
    and "times100_if_present (safe_get py r key 0) = Some (rescaled m)"
  using safe_get_rate [OF assms]
  by (simp_all add: times100_if_le1_def times100_if_present_def rescaled_def)

lemma dashboard_rescale:
  assumes "convert_row py r = Inr rep"
  shows "dashboard_reads py (row_get r ''Overall Close %'' (CInt 0)) = Some m \<Longrightarrow>
           overallClose rep = Some (rescaled m)"
    and "dashboard_reads py (row_get r ''Units Captured on Sold Jobs %'' (CInt 0)) = Some m \<Longrightarrow>
           overallCapture rep = Some (rescaled m)"
    and "cat \<in> set unit_categories \<Longrightarrow>
         dashboard_reads py (row_get r (close_col cat) (CInt 0)) = Some m \<Longrightarrow>
           \<exists>b. map_of (categories rep) cat = Some b \<and> closeRate b = Some (rescaled m)"
    and "cat \<in> set unit_categories \<Longrightarrow>
         dashboard_reads py (row_get r (capture_col cat) (CInt 0)) = Some m \<Longrightarrow>
           \<exists>b. map_of (categories rep) cat = Some b \<and> captureRate b = Some (rescaled m)"
proof -
  note f = convert_row_fields [OF assms]
  show "dashboard_reads py (row_get r ''Overall Close %'' (CInt 0)) = Some m \<Longrightarrow>
           overallClose rep = Some (rescaled m)"
    using f(1) dashboard_rescale_overall(1) [of "''Overall Close %''" py r m] overall_key_facts
    by simp
  show "dashboard_reads py (row_get r ''Units Captured on Sold Jobs %'' (CInt 0)) = Some m \<Longrightarrow>
           overallCapture rep = Some (rescaled m)"
    using f(2) dashboard_rescale_overall(1) [of "''Units Captured on Sold Jobs %''" py r m]
      overall_key_facts
    by simp
  show "\<exists>b. map_of (categories rep) cat = Some b \<and> closeRate b = Some (rescaled m)"
    if "cat \<in> set unit_categories"
      and "dashboard_reads py (row_get r (close_col cat) (CInt 0)) = Some m"
  proof -
    from that(1) key_facts have "py_in ''Close'' (close_col cat)" by (simp add: list_all_iff)
    then show ?thesis
      using that dashboard_rescale_overall(2) [of "close_col cat" py r m]
      by (simp add: f(3) map_of_tabulate dashboard_bucket_def)
  qed
  show "\<exists>b. map_of (categories rep) cat = Some b \<and> captureRate b = Some (rescaled m)"
    if "cat \<in> set unit_categories"
      and "dashboard_reads py (row_get r (capture_col cat) (CInt 0)) = Some m"
  proof -
    from that(1) key_facts have "py_in ''Capture'' (capture_col cat)" by (simp add: list_all_iff)
    then show ?thesis
      using that dashboard_rescale_overall(2) [of "capture_col cat" py r m]
      by (simp add: f(3) map_of_tabulate dashboard_bucket_def)
  qed
qed

lemma rescale_examples:
  "safe_convert_numeric py (CFloat 0.35) True 0 = Inr (Some 35)
   \<and> safe_convert_numeric py (CFloat 1.05) True 0 = Inr (Some 1.05)"
  by (simp add: convert_parsed_def rescale_def)

text \<open>
  Claim C2. A cell coerced as a percentage that parses to the number \<open>m\<close> gives
  \<open>100 * m\<close> when \<open>m \<le> 1\<close> and \<open>m\<close> itself otherwise: in the converter's
  \<^verbatim>\<open>safe_convert_numeric\<close> with \<^verbatim>\<open>is_percentage=True\<close>, and in the dashboard's
  \<^verbatim>\<open>convert_excel_to_sales_data\<close> for the two overall rates and the close and capture
  rate of every bucket. 0.35 becomes 35 and 1.05 stays 1.05.
\<close>

theorem percentage_rescale_law:
  "(converter_reads py c = Some m \<longrightarrow>
      safe_convert_numeric py c True dflt = Inr (Some (rescaled m)))
   \<and> (convert_row py r = Inr rep \<longrightarrow>
        (dashboard_reads py (row_get r ''Overall Close %'' (CInt 0)) = Some m \<longrightarrow>
           overallClose rep = Some (rescaled m))
      \<and> (dashboard_reads py (row_get r ''Units Captured on Sold Jobs %'' (CInt 0)) = Some m \<longrightarrow>
           overallCapture rep = Some (rescaled m))
      \<and> (cat \<in> set unit_categories
           \<and> dashboard_reads py (row_get r (close_col cat) (CInt 0)) = Some m \<longrightarrow>
           (\<exists>b. map_of (categories rep) cat = Some b \<and> closeRate b = Some (rescaled m)))
      \<and> (cat \<in> set unit_categories
           \<and> dashboard_reads py (row_get r (capture_col cat) (CInt 0)) = Some m \<longrightarrow>
           (\<exists>b. map_of (categories rep) cat = Some b \<and> captureRate b = Some (rescaled m))))
   \<and> safe_convert_numeric py (CFloat 0.35) True 0 = Inr (Some 35)
   \<and> safe_convert_numeric py (CFloat 1.05) True 0 = Inr (Some 1.05)"
  using converter_rescale [of py c m dflt]
    dashboard_rescale(1) [of py r rep m] dashboard_rescale(2) [of py r rep m]
    dashboard_rescale(3) [of py r rep cat m] dashboard_rescale(4) [of py r rep cat m]
    rescale_examples [of py]
  by blast

theorem percentage_rescale_law_witness:
  "converter_reads py_plain (CStr ''42%'') = Some 42
   \<and> safe_convert_numeric py_plain (CStr ''42%'') True 0 = Inr (Some 42)
   \<and> convert_row py_plain sample_row = Inr sample_rep
   \<and> dashboard_reads py_plain (row_get sample_row ''Overall Close %'' (CInt 0)) = Some 0.35
   \<and> overallClose sample_rep = Some 35
   \<and> dashboard_reads py_plain (row_get sample_row ''Units Captured on Sold Jobs %'' (CInt 0)) = Some 1.05
   \<and> overallCapture sample_rep = Some 1.05
   \<and> ''0-4'' \<in> set unit_categories
   \<and> dashboard_reads py_plain (row_get sample_row (close_col ''0-4'') (CInt 0)) = Some 0.38
   \<and> (\<exists>b. map_of (categories sample_rep) ''0-4'' = Some b \<and> closeRate b = Some 38)
   \<and> dashboard_reads py_plain (row_get sample_row (capture_col ''0-4'') (CInt 0)) = Some 1.2
   \<and> (\<exists>b. map_of (categories sample_rep) ''0-4'' = Some b \<and> captureRate b = Some 1.2)"
proof -
  have h1: "converter_reads py_plain (CStr ''42%'') = Some 42" by code_simp
  have h2: "convert_row py_plain sample_row = Inr sample_rep" by code_simp
  have h3: "dashboard_reads py_plain (row_get sample_row ''Overall Close %'' (CInt 0)) = Some 0.35"
    by code_simp
  have h4: "dashboard_reads py_plain (row_get sample_row ''Units Captured on Sold Jobs %'' (CInt 0))
      = Some 1.05"
    by code_simp
  have h5: "''0-4'' \<in> set unit_categories" by code_simp
  have h6: "dashboard_reads py_plain (row_get sample_row (close_col ''0-4'') (CInt 0)) = Some 0.38"
    by code_simp
  have h7: "dashboard_reads py_plain (row_get sample_row (capture_col ''0-4'') (CInt 0)) = Some 1.2"
    by code_simp
  have v: "rescaled 42 = 42" "rescaled 0.35 = 35" "rescaled 1.05 = 1.05" "rescaled 0.38 = 38"
    "rescaled 1.2 = 1.2"
    by (simp_all add: rescaled_def)
  from percentage_rescale_law [of py_plain "CStr ''42%''" 42 0 sample_row sample_rep "''0-4''"] h1
  have c1: "safe_convert_numeric py_plain (CStr ''42%'') True 0 = Inr (Some 42)"
    using v by metis
  from percentage_rescale_law [of py_plain CNaN "0.35" 0 sample_row sample_rep "''0-4''"] h2 h3
  have c2: "overallClose sample_rep = Some 35"
    using v by metis
  from percentage_rescale_law [of py_plain CNaN "1.05" 0 sample_row sample_rep "''0-4''"] h2 h4
  have c3: "overallCapture sample_rep = Some 1.05"
    using v by metis
  from percentage_rescale_law [of py_plain CNaN "0.38" 0 sample_row sample_rep "''0-4''"] h2 h5 h6
  have c4: "\<exists>b. map_of (categories sample_rep) ''0-4'' = Some b \<and> closeRate b = Some 38"
    using v by metis
  from percentage_rescale_law [of py_plain CNaN "1.2" 0 sample_row sample_rep "''0-4''"] h2 h5 h7
  have c5: "\<exists>b. map_of (categories sample_rep) ''0-4'' = Some b \<and> captureRate b = Some 1.2"
    using v by metis
  from h1 h2 h3 h4 h5 h6 h7 c1 c2 c3 c4 c5 show ?thesis by blast
qed

section \<open>Record normalisation\<close>

lemma process_categories_keys:
  "process_categories py r ks acc = Inr cats \<Longrightarrow> distinct ks \<Longrightarrow>
   set ks \<inter> fst ` set acc = {} \<Longrightarrow> map fst cats = map fst acc @ ks"
proof (induction ks arbitrary: acc)
  case Nil
  then show ?case by simp
next
  case (Cons c ks)
  have fresh: "c \<notin> fst ` set acc" using Cons.prems(3) by auto
  from Cons.prems(1) obtain b where
    rec: "process_categories py r ks (AList.update c b acc) = Inr cats"
    by (auto simp: ebind_def split: sum.splits)
  have d: "distinct ks" and disj: "set ks \<inter> fst ` set (AList.update c b acc) = {}"
    using Cons.prems(2,3) by (auto simp: update_fresh [OF fresh])
  from Cons.IH [OF rec d disj] show ?case by (simp add: update_fresh [OF fresh])
qed

lemma build_rep_fields:
  assumes "build_rep py n r = Inr rep"
  shows "name rep = n" and "map fst (categories rep) = unit_categories"
proof -
  from assms obtain total oclose ocapture cats where
    cats: "process_categories py r unit_categories [] = Inr cats"
    and rep: "rep = \<lparr>name = n, totalAppts = number_of total, overallClose = oclose,
            overallCapture = ocapture, categories = cats\<rparr>"
    by (auto simp: build_rep_def ebind_def split: sum.splits)
  show "name rep = n" by (simp add: rep)
  from process_categories_keys [OF cats distinct_unit_categories]
  show "map fst (categories rep) = unit_categories" by (simp add: rep)
qed

lemma process_row_Emitted:
  assumes "process_row py idx r = Emitted rep"
  shows "name rep = rep_name_of py idx r" and "\<not> blank_name (name rep)"
    and "map fst (categories rep) = unit_categories"
proof -
  from assms have nb: "\<not> blank_name (rep_name_of py idx r)"
    and b: "build_rep py (rep_name_of py idx r) r = Inr rep"
    by (auto simp: process_row_def Let_def blank_name_def split: if_splits sum.splits)
  from build_rep_fields [OF b] nb
  show "name rep = rep_name_of py idx r" "\<not> blank_name (name rep)"
    "map fst (categories rep) = unit_categories"
    by simp_all
qed

lemma process_row_blank:
  "blank_name (rep_name_of py idx r) \<Longrightarrow> process_row py idx r = NameSkipped"
  by (simp add: process_row_def blank_name_def)

lemma process_rows_eq:
  "process_rows py xs (sd, pr) =
     (sd @ List.map_filter (emitted py) xs, pr @ List.map_filter (warned py) xs)"
proof (induction xs arbitrary: sd pr)
  case Nil
  show ?case by (simp add: map_filter_simps)
next
  case (Cons x xs)
  obtain idx r where x: "x = (idx, r)" by (cases x)
  show ?case
    by (cases "process_row py idx r")
      (simp_all add: x Cons.IH emitted_def warned_def map_filter_simps)
qed

lemma process_standard_format_eq:
  "process_standard_format py df =
     (List.map_filter (emitted py) (iterrows df), List.map_filter (warned py) (iterrows df))"
  by (simp add: process_standard_format_def process_rows_eq)

lemma length_iterrows: "length (iterrows df) = length (cells df)"
  by (simp add: iterrows_def)

lemma length_map_filter_le: "length (List.map_filter f xs) \<le> length xs"
  by (induction xs) (auto simp: map_filter_simps split: option.splits)

lemma subseq_map_filter:
  "(\<And>x y. x \<in> set xs \<Longrightarrow> f x = Some y \<Longrightarrow> g y = h x) \<Longrightarrow>
   subseq (map g (List.map_filter f xs)) (map h xs)"
proof (induction xs)
  case Nil
  show ?case by (simp add: map_filter_simps)
next
  case (Cons x xs)
  have ih: "subseq (map g (List.map_filter f xs)) (map h xs)"
    by (rule Cons.IH) (auto intro: Cons.prems)
  show ?case
  proof (cases "f x")
    case None
    with ih show ?thesis by (simp add: map_filter_simps list_emb_Cons)
  next
    case (Some y)
    with Cons.prems [of x y] have "g y = h x" by simp
    with ih Some show ?thesis by (simp add: map_filter_simps)
  qed
qed

lemma set_map_filter_iff: "y \<in> set (List.map_filter f xs) \<longleftrightarrow> (\<exists>x\<in>set xs. f x = Some y)"
  by (induction xs) (auto simp: map_filter_simps split: option.splits)

lemma emitted_Some: "emitted py x = Some rep \<longleftrightarrow> process_row py (fst x) (snd x) = Emitted rep"
  by (simp add: emitted_def split: row_outcome.splits)

text \<open>
  Claim C7. The output of \<^verbatim>\<open>process_standard_format\<close> consists of the records of the
  rows that emit one, in row order: a row whose trimmed name is empty or is the sentinel
  \<^verbatim>\<open>nan\<close> in any case contributes no record and no warning, no record of the output
  has such a name, the output is no longer than the table, and the names of the output are
  a subsequence of the trimmed names of the rows.
\<close>

theorem row_skip_law:
  "fst (process_standard_format py df) = List.map_filter (emitted py) (iterrows df)
   \<and> length (fst (process_standard_format py df)) \<le> length (cells df)
   \<and> (\<forall>x\<in>set (iterrows df). blank_name (rep_name_of py (fst x) (snd x)) \<longrightarrow>
         emitted py x = None \<and> warned py x = None)
   \<and> (\<forall>rep\<in>set (fst (process_standard_format py df)). \<not> blank_name (name rep))
   \<and> subseq (map name (fst (process_standard_format py df)))
        (map (\<lambda>x. rep_name_of py (fst x) (snd x)) (iterrows df))"
proof (intro conjI)
  show "fst (process_standard_format py df) = List.map_filter (emitted py) (iterrows df)"
    by (simp add: process_standard_format_eq)
  show "length (fst (process_standard_format py df)) \<le> length (cells df)"
    using length_map_filter_le [of "emitted py" "iterrows df"]
    by (simp add: process_standard_format_eq length_iterrows)
  show "\<forall>x\<in>set (iterrows df). blank_name (rep_name_of py (fst x) (snd x)) \<longrightarrow>
         emitted py x = None \<and> warned py x = None"
    by (simp add: emitted_def warned_def process_row_blank)
  show "\<forall>rep\<in>set (fst (process_standard_format py df)). \<not> blank_name (name rep)"
    by (auto simp: process_standard_format_eq set_map_filter_iff emitted_Some
        dest: process_row_Emitted(2))
  show "subseq (map name (fst (process_standard_format py df)))
        (map (\<lambda>x. rep_name_of py (fst x) (snd x)) (iterrows df))"
    unfolding process_standard_format_eq fst_conv
    by (rule subseq_map_filter) (auto simp: emitted_Some dest: process_row_Emitted(1))
qed

theorem row_skip_law_witness:
  "(1, [(''Sales Rep'', CNaN), (''Issued Appts'', CInt 3)]) \<in> set (iterrows df_skip)
   \<and> blank_name (rep_name_of py_plain 1 [(''Sales Rep'', CNaN), (''Issued Appts'', CInt 3)])
   \<and> emitted py_plain (1, [(''Sales Rep'', CNaN), (''Issued Appts'', CInt 3)]) = None
   \<and> warned py_plain (1, [(''Sales Rep'', CNaN), (''Issued Appts'', CInt 3)]) = None
   \<and> map name (fst (process_standard_format py_plain df_skip)) = [''Ann'', ''Bob'']
   \<and> list_all (\<lambda>rep. \<not> blank_name (name rep)) (fst (process_standard_format py_plain df_skip))"
proof -
  let ?x = "(1::nat, [(''Sales Rep'', CNaN), (''Issued Appts'', CInt 3)])"
  have h1: "?x \<in> set (iterrows df_skip)" by code_simp
  have h2: "blank_name (rep_name_of py_plain (fst ?x) (snd ?x))" by code_simp
  have v: "map name (fst (process_standard_format py_plain df_skip)) = [''Ann'', ''Bob'']"
    by code_simp
  note t = row_skip_law [of py_plain df_skip]
  from t h1 h2 have c: "emitted py_plain ?x = None \<and> warned py_plain ?x = None" by blast
  from t have d: "list_all (\<lambda>rep. \<not> blank_name (name rep))
      (fst (process_standard_format py_plain df_skip))"
    unfolding list_all_iff by blast
  from h1 h2 c v d show ?thesis by simp
qed

section \<open>The five buckets of every record\<close>

lemma keys_all_buckets: "map fst (categories rep) = unit_categories \<Longrightarrow> has_all_buckets rep"
proof -
  assume k: "map fst (categories rep) = unit_categories"
  have "map_of (categories rep) c \<noteq> None" if "c \<in> set unit_categories" for c
  proof -
    from that k have "c \<in> fst ` set (categories rep)" by (metis set_map)
    then show ?thesis by (simp add: map_of_eq_None_iff)
  qed
  then show ?thesis by (simp add: has_all_buckets_def list_all_iff)
qed

lemma score_no_KeyError: "has_all_buckets rep \<Longrightarrow> calculate_performance_score rep \<noteq> Inl KeyError"
  using valid_categories_eq [of rep unit_categories "[]"]
  by (simp add: has_all_buckets_def calculate_performance_score_def ebind_def Let_def
      split: prod.splits option.splits)

lemma validate_no_KeyError: "list_all has_all_buckets sd \<Longrightarrow> validate_data sd \<noteq> Inl KeyError"
proof (cases "sd = []")
  case True
  then show ?thesis by (simp add: validate_data_def)
next
  case False
  assume "list_all has_all_buckets sd"
  from validate_general [OF False this] show ?thesis by simp
qed

lemma leaders_no_KeyError: "list_all has_all_buckets sd \<Longrightarrow> category_leaders sd \<noteq> Inl KeyError"
proof -
  assume a: "list_all has_all_buckets sd"
  have "''0-4'' \<in> set unit_categories" by (simp add: unit_categories_def)
  from leaders_general [OF a this] show ?thesis by auto
qed

lemma standard_keys:
  "rep \<in> set (fst (process_standard_format py df)) \<Longrightarrow> map fst (categories rep) = unit_categories"
  by (auto simp: process_standard_format_eq set_map_filter_iff emitted_Some
      dest: process_row_Emitted(3))

lemma convert_rows_mem:
  "convert_rows py xs acc = Inr recs \<Longrightarrow> rep \<in> set recs \<Longrightarrow>
   rep \<in> set acc \<or> (\<exists>x\<in>set xs. convert_row py (snd x) = Inr rep)"
proof (induction xs arbitrary: acc)
  case Nil
  then show ?case by simp
next
  case (Cons x xs)
  obtain idx r where x: "x = (idx, r)" by (cases x)
  from Cons.prems(1) obtain rd where rd: "convert_row py r = Inr rd"
    and rec: "convert_rows py xs (acc @ [rd]) = Inr recs"
    by (auto simp: x ebind_def split: sum.splits)
  from Cons.IH [OF rec Cons.prems(2)] rd show ?case by (auto simp: x)
qed

lemma dashboard_keys:
  assumes "convert_excel_to_sales_data py df = Inr recs" and "rep \<in> set recs"
  shows "map fst (categories rep) = unit_categories"
proof -
  from convert_rows_mem [OF assms(1) [unfolded convert_excel_to_sales_data_def] assms(2)]
  obtain x where "convert_row py (snd x) = Inr rep" by auto
  from convert_row_fields(3) [OF this] show ?thesis by (simp add: comp_def)
qed

lemma custom_is_standard:
  "\<exists>df'. process_custom_format py df = process_standard_format py df'"
  unfolding process_custom_format_def Let_def by (rule exI) (rule refl)

text \<open>
  Claim C9. Every record produced by \<^verbatim>\<open>process_standard_format\<close>, by
  \<^verbatim>\<open>process_custom_format\<close> or by the dashboard's \<^verbatim>\<open>convert_excel_to_sales_data\<close>
  has as the keys of its \<open>categories\<close> exactly the five buckets 0-4, 5-9, 10-17, 18-25,
  26+ in this order, so that neither \<^verbatim>\<open>calculate_performance_score\<close> nor
  \<^verbatim>\<open>validate_data\<close> nor the category leaders raise \<^verbatim>\<open>KeyError\<close> on them.
\<close>

theorem five_buckets_always:
  "(\<forall>rep\<in>set (fst (process_standard_format py df)).
       map fst (categories rep) = unit_categories \<and> calculate_performance_score rep \<noteq> Inl KeyError)
   \<and> (\<forall>rep\<in>set (fst (process_custom_format py df)).
       map fst (categories rep) = unit_categories \<and> calculate_performance_score rep \<noteq> Inl KeyError)
   \<and> (convert_excel_to_sales_data py df = Inr recs \<longrightarrow>
        (\<forall>rep\<in>set recs.
           map fst (categories rep) = unit_categories \<and> calculate_performance_score rep \<noteq> Inl KeyError)
        \<and> validate_data recs \<noteq> Inl KeyError \<and> category_leaders recs \<noteq> Inl KeyError)
   \<and> validate_data (fst (process_standard_format py df)) \<noteq> Inl KeyError
   \<and> validate_data (fst (process_custom_format py df)) \<noteq> Inl KeyError"
proof -
  have std: "map fst (categories rep) = unit_categories \<and> calculate_performance_score rep \<noteq> Inl KeyError"
    if "rep \<in> set (fst (process_standard_format py d))" for rep d
    using standard_keys [OF that] by (simp add: keys_all_buckets score_no_KeyError)
  have stdv: "validate_data (fst (process_standard_format py d)) \<noteq> Inl KeyError" for d
    by (rule validate_no_KeyError) (simp add: list_all_iff standard_keys keys_all_buckets)
  obtain df' where c: "process_custom_format py df = process_standard_format py df'"
    using custom_is_standard by blast
  have dash: "map fst (categories rep) = unit_categories \<and> calculate_performance_score rep \<noteq> Inl KeyError"
    if "convert_excel_to_sales_data py df = Inr recs" "rep \<in> set recs" for rep
    using dashboard_keys [OF that] by (simp add: keys_all_buckets score_no_KeyError)
  have dashl: "list_all has_all_buckets recs" if "convert_excel_to_sales_data py df = Inr recs"
    using dashboard_keys [OF that] by (simp add: list_all_iff keys_all_buckets)
  show ?thesis
    using std [of _ df] std [of _ df'] stdv [of df] stdv [of df'] dash dashl
    by (auto simp: c validate_no_KeyError leaders_no_KeyError)
qed

theorem five_buckets_always_witness:
  "convert_excel_to_sales_data py_plain df_sample = Inr [sample_rep]
   \<and> map fst (categories sample_rep) = unit_categories
   \<and> calculate_performance_score sample_rep \<noteq> Inl KeyError
   \<and> validate_data [sample_rep] \<noteq> Inl KeyError
   \<and> category_leaders [sample_rep] \<noteq> Inl KeyError
   \<and> length (fst (process_standard_format py_plain df_skip)) = 2
   \<and> list_all (\<lambda>rep. map fst (categories rep) = unit_categories
                 \<and> calculate_performance_score rep \<noteq> Inl KeyError)
        (fst (process_standard_format py_plain df_skip))
   \<and> length (fst (process_custom_format py_plain df_custom)) = 1
   \<and> list_all (\<lambda>rep. map fst (categories rep) = unit_categories
                 \<and> calculate_performance_score rep \<noteq> Inl KeyError)
        (fst (process_custom_format py_plain df_custom))"
proof -
  have h1: "convert_excel_to_sales_data py_plain df_sample = Inr [sample_rep]" by code_simp
  have h2: "length (fst (process_standard_format py_plain df_skip)) = 2" by code_simp
  have h3: "length (fst (process_custom_format py_plain df_custom)) = 1" by code_simp
  from five_buckets_always [of py_plain df_sample "[sample_rep]"] h1
  have c1: "map fst (categories sample_rep) = unit_categories
      \<and> calculate_performance_score sample_rep \<noteq> Inl KeyError
      \<and> validate_data [sample_rep] \<noteq> Inl KeyError
      \<and> category_leaders [sample_rep] \<noteq> Inl KeyError"
    by simp
  from five_buckets_always [of py_plain df_skip "[]"]
  have c2: "list_all (\<lambda>rep. map fst (categories rep) = unit_categories
                 \<and> calculate_performance_score rep \<noteq> Inl KeyError)
        (fst (process_standard_format py_plain df_skip))"
    unfolding list_all_iff by blast
  from five_buckets_always [of py_plain df_custom "[]"]
  have c3: "list_all (\<lambda>rep. map fst (categories rep) = unit_categories
                 \<and> calculate_performance_score rep \<noteq> Inl KeyError)
        (fst (process_custom_format py_plain df_custom))"
    unfolding list_all_iff by blast
  from h1 h2 h3 c1 c2 c3 show ?thesis by blast
qed

section \<open>The column mapper of the custom path\<close>

lemma map_column_eq:
  "map_column m col = (case slot_of col of None \<Rightarrow> m | Some k \<Rightarrow> AList.update k col m)"
  by (auto simp: map_column_def slot_of_def canonical_slots_def label_matches_def Let_def)

lemma map_of_fold_map_column:
  "map_of (fold (\<lambda>col m. map_column m col) cols acc) slot =
     (case List.find (\<lambda>col. slot_of col = Some slot) (rev cols) of
        None \<Rightarrow> map_of acc slot
      | Some col \<Rightarrow> Some col)"
proof (induction cols arbitrary: acc rule: rev_induct)
  case Nil
  show ?case by simp
next
  case (snoc c cols)
  have step: "fold (\<lambda>col m. map_column m col) (cols @ [c]) acc =
      (case slot_of c of
         None \<Rightarrow> fold (\<lambda>col m. map_column m col) cols acc
       | Some k \<Rightarrow> AList.update k c (fold (\<lambda>col m. map_column m col) cols acc))"
    by (simp add: map_column_eq [of _ c])
  show ?case
    unfolding step by (cases "slot_of c") (simp_all add: snoc.IH update_conv')
qed

text \<open>
  Claim C5 as stated fails. With the labels \<open>Name\<close>, \<open>Rep Name\<close> both matching the
  rep-name slot, the slot holds the second label, not the first; and a label that
  matches the name keywords and the close-rate keywords is assigned to the name slot
  only, although it is the first label containing a close-rate keyword.
\<close>

theorem first_label_wins_counterexample:
  "List.find (label_matches ''Sales Rep'') [''Name'', ''Rep Name''] = Some ''Name''
   \<and> map_of (map_columns [''Name'', ''Rep Name'']) ''Sales Rep'' = Some ''Rep Name''
   \<and> map_of (map_columns [''Name'', ''Rep Name'']) ''Sales Rep''
       \<noteq> List.find (label_matches ''Sales Rep'') [''Name'', ''Rep Name'']
   \<and> List.find (label_matches ''Overall Close %'') [''Close Rate Name''] = Some ''Close Rate Name''
   \<and> map_of (map_columns [''Close Rate Name'']) ''Overall Close %'' = None"
  by code_simp

text \<open>
  Claim C5, amended. For every sequence of column labels, the label assigned to a
  canonical slot is the last label in sequence order that the mapper assigns to that
  slot, where a label is assigned to the first slot, in the order rep name, total
  appointments, overall close rate, overall capture rate, whose keywords its lower-cased
  text contains; the slot is unassigned when there is no such label.
\<close>

theorem last_label_wins:
  "map_of (map_columns cols) slot = List.find (\<lambda>col. slot_of col = Some slot) (rev cols)"
  by (simp add: map_columns_def map_of_fold_map_column split: option.splits)

theorem last_label_wins_witness:
  "map_of (map_columns [''Name'', ''Total Appts'', ''Rep Name'', ''Close Rate Name''])
     ''Sales Rep'' = Some ''Close Rate Name''"
proof -
  have "List.find (\<lambda>col. slot_of col = Some ''Sales Rep'')
          (rev [''Name'', ''Total Appts'', ''Rep Name'', ''Close Rate Name''])
        = Some ''Close Rate Name''"
    by code_simp
  with last_label_wins [of "[''Name'', ''Total Appts'', ''Rep Name'', ''Close Rate Name'']" "''Sales Rep''"]
  show ?thesis by simp
qed

section \<open>Row errors in the two conversions\<close>

text \<open>
  Claim C4, evaluated where the code departs from it. The dashboard's
  \<^verbatim>\<open>convert_excel_to_sales_data\<close> has no handler around a row: on a table whose second
  row has an empty overall close rate, \<^verbatim>\<open>safe_get\<close> returns \<^verbatim>\<open>None\<close>, the
  comparison \<^verbatim>\<open>None <= 1\<close> raises \<^verbatim>\<open>TypeError\<close>, and the whole conversion ends with
  it; nothing is logged and the first row is lost too. The converter class keeps both
  rows of the same table. On an integer cell beyond the range of \<^verbatim>\<open>float\<close>,
  \<^verbatim>\<open>safe_convert_numeric\<close> raises \<^verbatim>\<open>OverflowError\<close> to its caller, whose row handler
  logs the index and the name and drops that row only.
\<close>

theorem dashboard_aborts_on_blank_close:
  "convert_excel_to_sales_data py_plain df_blank_close = Inl TypeError
   \<and> map name (fst (process_standard_format py_plain df_blank_close)) = [''Ann'', ''Bob'']
   \<and> snd (process_standard_format py_plain df_blank_close) = []
   \<and> safe_convert_numeric py_plain (CInt (2 ^ 1024)) False 0 = Inl OverflowError
   \<and> map name (fst (process_standard_format py_plain df_huge)) = [''Ann'']
   \<and> snd (process_standard_format py_plain df_huge) = [(1, ''Bob'', OverflowError)]"
  by code_simp

section \<open>The two conversions compared\<close>


section \<open>Tables without a name column\<close>

lemma digits_not_space: "list_all (\<lambda>c. \<not> is_space c) ''0123456789''"
  by code_simp

lemma digit_char_mem: "d < 10 \<Longrightarrow> digit_char d \<in> set ''0123456789''"
  unfolding digit_char_def by (rule nth_mem) simp

lemma str_nat_digits: "str_nat n \<noteq> [] \<and> set (str_nat n) \<subseteq> set ''0123456789''"
proof (induction n rule: str_nat.induct)
  case (1 n)
  show ?case
  proof (cases "n < 10")
    case True
    then show ?thesis using digit_char_mem [of n] by (simp add: str_nat.simps [of n])
  next
    case False
    have "n mod 10 < 10" by simp
    from digit_char_mem [OF this] 1 [OF False] False show ?thesis
      by (simp add: str_nat.simps [of n])
  qed
qed

lemma first_chars: "\<not> is_space CHR ''R'' \<and> lower_char CHR ''R'' = CHR ''r''"
  by code_simp

lemma dropWhile_hd: "xs \<noteq> [] \<Longrightarrow> \<not> P (hd xs) \<Longrightarrow> dropWhile P xs = xs"
  by (cases xs) simp_all

lemma synthetic_name_ok:
  "strip (''Rep_'' @ str_nat idx) = ''Rep_'' @ str_nat idx
   \<and> \<not> blank_name (''Rep_'' @ str_nat idx)"
proof -
  let ?s = "''Rep_'' @ str_nat idx"
  from str_nat_digits [of idx] have ne: "str_nat idx \<noteq> []"
    and dg: "last (str_nat idx) \<in> set ''0123456789''"
    by (auto dest: last_in_set)
  from dg digits_not_space have nl: "\<not> is_space (last (str_nat idx))"
    unfolding list_all_iff by blast
  have front: "dropWhile is_space ?s = ?s" using first_chars by simp
  have "hd (rev ?s) = last (str_nat idx)" using ne by (simp add: hd_rev)
  with nl have rear: "dropWhile is_space (rev ?s) = rev ?s"
    by (intro dropWhile_hd) simp_all
  have s: "strip ?s = ?s" unfolding strip_def front rear by simp
  have "hd (lower ?s) = CHR ''r''" using first_chars by (simp add: lower_def)
  then have "lower ?s \<noteq> ''nan''" by auto
  then show ?thesis using s by (simp add: blank_name_def)
qed

lemma scn_total: "cell_ok c \<Longrightarrow> \<exists>v. safe_convert_numeric py c p d = Inr v"
  by (cases c)
    (auto simp: cell_ok_def convert_parsed_def Let_def split: option.splits)

lemma row_get_ok: "\<forall>c\<in>snd ` set r. cell_ok c \<Longrightarrow> cell_ok d \<Longrightarrow> cell_ok (row_get r k d)"
  by (auto simp: row_get_def split: option.splits dest!: map_of_SomeD)

lemma default_ok: "cell_ok (CInt 0)" "cell_ok CNone" "cell_ok CNaN" "cell_ok (CStr s)"
  by (simp_all add: cell_ok_def float_overflows_def)

lemma process_categories_total:
  "\<forall>c\<in>snd ` set r. cell_ok c \<Longrightarrow> \<exists>cats. process_categories py r ks acc = Inr cats"
proof (induction ks arbitrary: acc)
  case Nil
  show ?case by simp
next
  case (Cons k ks)
  from scn_total [OF row_get_ok [OF Cons.prems default_ok(1)]] obtain a where
    a: "safe_convert_numeric py (row_get r (appts_col k) (CInt 0)) False 0 = Inr a" by blast
  from scn_total [OF row_get_ok [OF Cons.prems default_ok(2)]] obtain b where
    b: "safe_convert_numeric py (row_get r (close_col k) CNone) True 0 = Inr b" by blast
  from scn_total [OF row_get_ok [OF Cons.prems default_ok(2)]] obtain c where
    c: "safe_convert_numeric py (row_get r (capture_col k) CNone) True 0 = Inr c" by blast
  show ?case using Cons.IH [OF Cons.prems] by (simp add: ebind_def a b c)
qed

lemma build_rep_total:
  assumes "\<forall>c\<in>snd ` set r. cell_ok c"
  shows "\<exists>rep. build_rep py n r = Inr rep"
proof -
  from scn_total [OF row_get_ok [OF assms default_ok(1)]] obtain a where
    a: "safe_convert_numeric py (row_get r ''Issued Appts'' (CInt 0)) False 0 = Inr a" by blast
  from scn_total [OF row_get_ok [OF assms default_ok(1)]] obtain b where
    b: "safe_convert_numeric py (row_get r ''Overall Close %'' (CInt 0)) True 0 = Inr b" by blast
  from scn_total [OF row_get_ok [OF assms default_ok(1)]] obtain c where
    c: "safe_convert_numeric py (row_get r ''Units Captured on Sold Jobs %'' (CInt 0)) True 0 = Inr c"
    by blast
  from process_categories_total [OF assms] obtain cats where
    d: "process_categories py r unit_categories [] = Inr cats" by blast
  show ?thesis by (simp add: build_rep_def ebind_def a b c d)
qed

lemma synthetic_row:
  assumes "row_get r ''Sales Rep'' (CStr (''Rep_'' @ str_nat idx)) = CStr (''Rep_'' @ str_nat idx)"
  shows "rep_name_of py idx r = ''Rep_'' @ str_nat idx"
    and "process_row py idx r \<noteq> NameSkipped"
    and "\<forall>c\<in>snd ` set r. cell_ok c \<Longrightarrow>
         \<exists>rep. process_row py idx r = Emitted rep \<and> name rep = ''Rep_'' @ str_nat idx"
proof -
  show n: "rep_name_of py idx r = ''Rep_'' @ str_nat idx"
    using synthetic_name_ok [of idx] assms by (simp add: rep_name_of_def)
  have nb: "\<not> blank_name (rep_name_of py idx r)"
    using synthetic_name_ok [of idx] by (simp add: n)
  then show "process_row py idx r \<noteq> NameSkipped"
    by (simp add: process_row_def blank_name_def Let_def split: sum.splits)
  show "\<exists>rep. process_row py idx r = Emitted rep \<and> name rep = ''Rep_'' @ str_nat idx"
    if "\<forall>c\<in>snd ` set r. cell_ok c"
  proof -
    from build_rep_total [OF that] obtain rep where
      b: "build_rep py (rep_name_of py idx r) r = Inr rep" by blast
    from build_rep_fields(1) [OF b] have "name rep = ''Rep_'' @ str_nat idx" by (simp add: n)
    moreover have "process_row py idx r = Emitted rep"
      using nb b by (simp add: process_row_def blank_name_def Let_def)
    ultimately show ?thesis by blast
  qed
qed

lemma all_emitted:
  "\<forall>x\<in>set xs. \<exists>rep. process_row py (fst x) (snd x) = Emitted rep \<and> name rep = N (fst x) \<Longrightarrow>
   map name (List.map_filter (emitted py) xs) = map N (map fst xs)
   \<and> List.map_filter (warned py) xs = []"
proof (induction xs)
  case Nil
  show ?case by simp
next
  case (Cons x xs)
  from Cons.prems obtain rep where
    rep: "process_row py (fst x) (snd x) = Emitted rep" "name rep = N (fst x)" by auto
  from Cons.prems have "\<forall>x\<in>set xs. \<exists>rep. process_row py (fst x) (snd x) = Emitted rep \<and> name rep = N (fst x)"
    by simp
  from Cons.IH [OF this] rep show ?case by (simp add: emitted_def warned_def)
qed

lemma map_fst_iterrows: "map fst (iterrows df) = [0 ..< length (cells df)]"
  by (simp add: iterrows_def)

lemma iterrows_row:
  "x \<in> set (iterrows df) \<Longrightarrow> \<exists>cs\<in>set (cells df). snd x = zip (columns df) cs"
  by (auto simp: iterrows_def in_set_enumerate_eq intro!: bexI [of _ "cells df ! fst x"])

lemma zip_cells_ok: "list_all cell_ok cs \<Longrightarrow> \<forall>c\<in>snd ` set (zip cols cs). cell_ok c"
  by (auto simp: list_all_iff dest: set_zip_rightD)

lemma zip_absent: "k \<notin> set cols \<Longrightarrow> row_get (zip cols cs) k d = d"
proof -
  assume "k \<notin> set cols"
  then have "k \<notin> fst ` set (zip cols cs)" by (auto dest: set_zip_leftD)
  then have "map_of (zip cols cs) k = None" by (simp add: map_of_eq_None_iff)
  then show ?thesis by (simp add: row_get_def)
qed

lemma standard_validates:
  "fst (process_standard_format py df) \<noteq> [] \<Longrightarrow>
   \<exists>st. validate_data (fst (process_standard_format py df)) = Inr st"
proof -
  assume ne: "fst (process_standard_format py df) \<noteq> []"
  have "list_all has_all_buckets (fst (process_standard_format py df))"
    by (simp add: list_all_iff standard_keys keys_all_buckets)
  from validate_general [OF ne this] show ?thesis by blast
qed

lemma synthetic_standard:
  assumes "''Sales Rep'' \<notin> set (columns df)"
  shows "list_all (\<lambda>x. rep_name_of py (fst x) (snd x) = ''Rep_'' @ str_nat (fst x)
                      \<and> process_row py (fst x) (snd x) \<noteq> NameSkipped) (iterrows df)"
    and "overflow_free df \<Longrightarrow>
           map name (fst (process_standard_format py df)) = synthetic_names (length (cells df))
           \<and> snd (process_standard_format py df) = []"
proof -
  have fb: "row_get (snd x) ''Sales Rep'' (CStr (''Rep_'' @ str_nat (fst x)))
        = CStr (''Rep_'' @ str_nat (fst x))" if "x \<in> set (iterrows df)" for x
    using iterrows_row [OF that] assms by (auto simp: zip_absent)
  show "list_all (\<lambda>x. rep_name_of py (fst x) (snd x) = ''Rep_'' @ str_nat (fst x)
                      \<and> process_row py (fst x) (snd x) \<noteq> NameSkipped) (iterrows df)"
    unfolding list_all_iff using synthetic_row(1,2) [OF fb] by blast
  show "map name (fst (process_standard_format py df)) = synthetic_names (length (cells df))
           \<and> snd (process_standard_format py df) = []"
    if "overflow_free df"
  proof -
    have "\<exists>rep. process_row py (fst x) (snd x) = Emitted rep
          \<and> name rep = ''Rep_'' @ str_nat (fst x)" if x: "x \<in> set (iterrows df)" for x
    proof -
      from iterrows_row [OF x] obtain cs where cs: "cs \<in> set (cells df)"
        and r: "snd x = zip (columns df) cs" by blast
      from cs \<open>overflow_free df\<close> have "list_all cell_ok cs"
        by (simp add: overflow_free_def list_all_iff)
      from zip_cells_ok [OF this] have "\<forall>c\<in>snd ` set (snd x). cell_ok c" by (simp add: r)
      from synthetic_row(3) [OF fb [OF x] this] show ?thesis .
    qed
    then have "\<forall>x\<in>set (iterrows df). \<exists>rep. process_row py (fst x) (snd x) = Emitted rep
          \<and> name rep = (\<lambda>i. ''Rep_'' @ str_nat i) (fst x)" by simp
    from all_emitted [OF this] show ?thesis
      by (simp add: process_standard_format_eq map_fst_iterrows synthetic_names_def)
  qed
qed

section \<open>Where the two conversions agree\<close>

lemma safe_convert_numeric_number: "safe_convert_numeric py c False d = Inr v \<Longrightarrow> v \<noteq> None"
  by (cases c)
    (auto simp: convert_parsed_def no_value_def Let_def
       split: if_splits sum.splits error.splits option.splits)

lemma safe_get_Appts_number: "endswith key ''Appts'' \<Longrightarrow> safe_get py r key d \<noteq> None"
  by (auto simp: safe_get_def fallback_def Let_def split: sum.splits)








lemma rescaled_0: "rescaled 0 = 0"
  by (simp add: rescaled_def)















end
